theory Spec2Isabelle
  imports Main
begin

section \<open>Python strings\<close>

text \<open>
  The agent of \<^verbatim>\<open>llmlink/model/Agent.py\<close> works on Python \<^verbatim>\<open>str\<close> values. A string is
  modelled as a list of characters, a character being a code point below 256; code
  points from 256 on (among them the line boundaries U+2028 and U+2029) are outside the
  alphabet of this model. The string methods the agent calls are written out for this
  alphabet as CPython defines them.
\<close>

definition isspace :: "char \<Rightarrow> bool" where
  \<comment> \<open>the characters \<^verbatim>\<open>str.strip()\<close> removes: tab, LF, VT, FF, CR, FS, GS, RS, US, space,
      NEL and the no-break space\<close>
  "isspace c = (c \<in> {CHR 0x09, CHR 0x0A, CHR 0x0B, CHR 0x0C, CHR 0x0D, CHR 0x1C,
                      CHR 0x1D, CHR 0x1E, CHR 0x1F, CHR 0x20, CHR 0x85, CHR 0xA0})"

definition strip :: "string \<Rightarrow> string" where
  "strip s = rev (dropWhile isspace (rev (dropWhile isspace s)))"

definition is_linebreak :: "char \<Rightarrow> bool" where
  \<comment> \<open>the line boundaries of \<^verbatim>\<open>str.splitlines()\<close>: LF, VT, FF, CR, FS, GS, RS and NEL\<close>
  "is_linebreak c = (c \<in> {CHR 0x0A, CHR 0x0B, CHR 0x0C, CHR 0x0D, CHR 0x1C, CHR 0x1D,
                           CHR 0x1E, CHR 0x85})"

text \<open>
  \<^verbatim>\<open>str.splitlines()\<close>: the text is cut at every line boundary, CR LF counting as
  one; the boundaries are dropped, and a boundary at the very end opens no further line.
  The first argument is the line read so far.
\<close>

fun splitlines_from :: "string \<Rightarrow> string \<Rightarrow> string list" where
  "splitlines_from line [] = (if line = [] then [] else [line])"
| "splitlines_from line (c # cs) =
     (if c = CHR 0x0D then
        (case cs of
           [] \<Rightarrow> line # splitlines_from [] cs
         | d # ds \<Rightarrow> if d = CHR 0x0A then line # splitlines_from [] ds
                     else line # splitlines_from [] cs)
      else if is_linebreak c then line # splitlines_from [] cs
      else splitlines_from (line @ [c]) cs)"

definition splitlines :: "string \<Rightarrow> string list" where
  "splitlines s = splitlines_from [] s"

text \<open>
  \<^verbatim>\<open>s.split(sep)\<close> for a one-character separator: the fields between the separators,
  never an empty list. The first argument is the field read so far.
\<close>

fun split_from :: "string \<Rightarrow> char \<Rightarrow> string \<Rightarrow> string list" where
  "split_from field sep [] = [field]"
| "split_from field sep (c # cs) =
     (if c = sep then field # split_from [] sep cs
      else split_from (field @ [c]) sep cs)"

definition split :: "char \<Rightarrow> string \<Rightarrow> string list" where
  "split sep s = split_from [] sep s"

fun join :: "string \<Rightarrow> string list \<Rightarrow> string" where
  "join sep [] = []"
| "join sep [x] = x"
| "join sep (x # y # ys) = x @ sep @ join sep (y # ys)"

definition startswith :: "string \<Rightarrow> string \<Rightarrow> bool" where
  "startswith s p = (take (length p) s = p)"

section \<open>Exceptions\<close>

text \<open>
  A raised exception is its class and the text \<^verbatim>\<open>str(e)\<close>. The classes named are the
  ones the agent can raise itself; \<open>Exception\<close> stands for any other class below
  Python's \<^verbatim>\<open>Exception\<close>, and \<open>BaseException\<close> for a class outside it
  (\<^verbatim>\<open>KeyboardInterrupt\<close>, \<^verbatim>\<open>SystemExit\<close>, \<^verbatim>\<open>GeneratorExit\<close>). The texts of the errors the
  interpreter raises are those of CPython 3.10.
\<close>

datatype exc_class = TypeError | IndexError | KeyError | ValueError | Exception | BaseException

datatype exc = Exc (class_of: exc_class) (str_of: string)

fun is_Exception :: "exc_class \<Rightarrow> bool" where
  "is_Exception BaseException = False"
| "is_Exception _ = True"

fun is_LookupError :: "exc_class \<Rightarrow> bool" where
  "is_LookupError IndexError = True"
| "is_LookupError KeyError = True"
| "is_LookupError _ = False"

definition list_index_out_of_range :: exc where
  "list_index_out_of_range = Exc IndexError ''list index out of range''"

section \<open>Parsing the model's output\<close>

text \<open>
  \<^verbatim>\<open>parse_output\<close> returns one of two dictionaries or a plain string. The three shapes
  are the constructors of \<open>action\<close>, with the fields in the order of the source.
\<close>

datatype action =
    Tool_call string string string  \<comment> \<open>\<^verbatim>\<open>'Action': 'tool'\<close>, with \<^verbatim>\<open>'Tool'\<close>, \<^verbatim>\<open>'Input'\<close> and \<^verbatim>\<open>'Thought'\<close>\<close>
  | Final_answer string string  \<comment> \<open>\<^verbatim>\<open>'Action': 'answer'\<close>, with \<^verbatim>\<open>'Answer'\<close> and \<^verbatim>\<open>'Thought'\<close>\<close>
  | Unparsed string  \<comment> \<open>the output with the warning appended, a plain \<^verbatim>\<open>str\<close>\<close>

text \<open>
  The inner loop of the \<^verbatim>\<open>Action\<close> branch: from \<open>action_idx\<close> on, every line is appended
  to the tool input after a newline, until a line starts with \<^verbatim>\<open>Observation:\<close>.
\<close>

function append_input :: "string list \<Rightarrow> nat \<Rightarrow> string \<Rightarrow> string" where
  "append_input lines action_idx tool_input =
     (if action_idx < length lines then
        (if startswith (lines ! action_idx) ''Observation:'' then tool_input
         else append_input lines (Suc action_idx)
                (tool_input @ ''\<newline>'' @ lines ! action_idx))
      else tool_input)"
  by pat_completeness auto
termination
  by (relation "measure (\<lambda>(lines, action_idx, tool_input). length lines - action_idx)") auto

declare append_input.simps [simp del]

text \<open>
  The body of the \<^verbatim>\<open>Action\<close> branch (source lines 139 to 153). The result is paired
  with the lines printed. \<^verbatim>\<open>lines[idx + 1]\<close> raises when the \<^verbatim>\<open>Action\<close> line is the
  last one, and \<^verbatim>\<open>split(':')[1]\<close> raises when the next line has no colon.
\<close>

definition parse_action :: "string list \<Rightarrow> nat \<Rightarrow> string list \<times> (exc + action)" where
  "parse_action lines idx =
     (let tool = strip (join '':'' (tl (split CHR '':'' (lines ! idx)))) in
      if idx + 1 < length lines then
        (let printed =
               (if strip (hd (split CHR '':'' (lines ! (idx + 1)))) \<noteq> ''Action Input''
                then [''Possible problem parsing action input''] else [])
         in case tl (split CHR '':'' (lines ! (idx + 1))) of
              [] \<Rightarrow> (printed, Inl list_index_out_of_range)
            | x # _ \<Rightarrow>
                (printed,
                 Inr (Tool_call tool (append_input lines (idx + 2) (strip x))
                        (join ''\<newline>'' (take idx lines)))))
      else ([], Inl list_index_out_of_range))"

definition parse_answer :: "string list \<Rightarrow> nat \<Rightarrow> string list \<times> (exc + action)" where
  \<comment> \<open>the \<^verbatim>\<open>Final Answer\<close> branch (source lines 156 and 157)\<close>
  "parse_answer lines idx =
     (case tl (split CHR '':'' (lines ! idx)) of
        [] \<Rightarrow> ([], Inl list_index_out_of_range)
      | x # _ \<Rightarrow> ([], Inr (Final_answer (strip x) (join ''\<newline>'' (take idx lines)))))"

definition no_action_warning :: string where
  "no_action_warning = ''Warning: No parsable action detected. Be sure to ''"

function scan_lines :: "string \<Rightarrow> string list \<Rightarrow> nat \<Rightarrow> string list \<times> (exc + action)" where
  "scan_lines output lines idx =
     (if idx < length lines then
        (if CHR '':'' \<in> set (lines ! idx) then
           (let type_of_response = strip (hd (split CHR '':'' (lines ! idx))) in
            if type_of_response = ''Action'' then parse_action lines idx
            else if type_of_response = ''Final Answer'' then parse_answer lines idx
            else scan_lines output lines (Suc idx))
         else scan_lines output lines (Suc idx))
      else ([], Inr (Unparsed (output @ ''\<newline>'' @ no_action_warning))))"
  by pat_completeness auto
termination
  by (relation "measure (\<lambda>(output, lines, idx). length lines - idx)") auto

declare scan_lines.simps [simp del]

definition parse_output :: "string \<Rightarrow> string list \<times> (exc + action)" where
  "parse_output output = scan_lines output (splitlines output) 0"

section \<open>Formatting\<close>

text \<open>
  \<^verbatim>\<open>repr\<close> of a string, and \<^verbatim>\<open>str\<close> of a list of strings, which is what the placeholder
  \<^verbatim>\<open>{tool_names}\<close> is replaced with.
\<close>

definition isprintable :: "char \<Rightarrow> bool" where
  "isprintable c =
     (let n = (of_char c :: nat) in (32 \<le> n \<and> n < 127) \<or> (161 \<le> n \<and> n \<noteq> 173))"

definition hex2 :: "char \<Rightarrow> string" where
  "hex2 c =
     (let n = (of_char c :: nat)
      in [''0123456789abcdef'' ! (n div 16), ''0123456789abcdef'' ! (n mod 16)])"

definition repr_char :: "char \<Rightarrow> char \<Rightarrow> string" where
  "repr_char quote c =
     (if c = quote \<or> c = CHR 0x5C then [CHR 0x5C, c]
      else if c = CHR 0x09 then [CHR 0x5C, CHR ''t'']
      else if c = CHR 0x0A then [CHR 0x5C, CHR ''n'']
      else if c = CHR 0x0D then [CHR 0x5C, CHR ''r'']
      else if \<not> isprintable c then [CHR 0x5C, CHR ''x''] @ hex2 c
      else [c])"

definition repr :: "string \<Rightarrow> string" where
  "repr s =
     (let quote = (if CHR 0x27 \<in> set s \<and> CHR 0x22 \<notin> set s then CHR 0x22 else CHR 0x27)
      in [quote] @ concat (map (repr_char quote) s) @ [quote])"

definition str_list :: "string list \<Rightarrow> string" where
  "str_list xs = ''['' @ join '', '' (map repr xs) @ '']''"

text \<open>
  \<^verbatim>\<open>template.format(**kwargs)\<close> with keyword arguments only, as \<^verbatim>\<open>create_prompt\<close> calls
  it, after CPython's \<^verbatim>\<open>MarkupIterator_next\<close> and \<^verbatim>\<open>parse_field\<close>. The template is read
  from left to right. A doubled brace stands for one brace; a closing brace on its own
  and an opening brace at the very end raise \<^verbatim>\<open>ValueError\<close>. After any other opening
  brace a replacement field is read. Its name ends at a closing brace, a colon or an
  exclamation mark; an opening brace in it raises, and after an opening bracket
  everything up to the next closing bracket belongs to it. An exclamation mark is
  followed by the conversion character and then by the closing brace or a colon; a
  colon is followed by the format specification, which ends at the closing brace that
  matches the opening one of the field. A field that the template ends in raises.

  A field that is a plain name and nothing more is replaced with the argument of that
  name and raises \<^verbatim>\<open>KeyError\<close> when there is none. What Python makes of any other
  field (an empty or numeric name, an attribute, an index, a conversion, a format
  specification) is a parameter, the renderer: it is given the text between the braces
  and answers with a string, with an exception, or with \<open>None\<close> when it does not know.
\<close>

definition prepend :: "string \<Rightarrow> (exc + string) option \<Rightarrow> (exc + string) option" where
  "prepend v r =
     (case r of None \<Rightarrow> None | Some (Inl e) \<Rightarrow> Some (Inl e) | Some (Inr t) \<Rightarrow> Some (Inr (v @ t)))"

definition single_open :: exc where
  "single_open = Exc ValueError ''Single '{' encountered in format string''"

definition single_close :: exc where
  "single_close = Exc ValueError ''Single '}' encountered in format string''"

definition unclosed_field :: exc where
  "unclosed_field = Exc ValueError ''expected '}' before end of string''"

definition open_in_name :: exc where
  "open_in_name = Exc ValueError ''unexpected '{' in field name''"

definition no_conversion :: exc where
  "no_conversion = Exc ValueError ''end of string while looking for conversion specifier''"

definition no_colon :: exc where
  "no_colon = Exc ValueError ''expected ':' after conversion specifier''"

definition unmatched_spec :: exc where
  "unmatched_spec = Exc ValueError ''unmatched '{' in format spec''"

definition isdigit :: "char \<Rightarrow> bool" where
  "isdigit c = (c \<in> set ''0123456789'')"

definition plain_name :: "string \<Rightarrow> bool" where
  \<comment> \<open>a field that is a name: not empty, not a number, no attribute, index, conversion
      or format specification\<close>
  "plain_name field =
     (\<not> list_all isdigit field \<and>
      list_all (\<lambda>c. c \<notin> {CHR ''.'', CHR ''['', CHR ''!'', CHR '':''}) field)"

definition field_value ::
  "(string \<Rightarrow> (exc + string) option) \<Rightarrow> (string \<Rightarrow> string option) \<Rightarrow> string
     \<Rightarrow> (exc + string) option" where
  "field_value render kwargs field =
     (if plain_name field then
        (case kwargs field of
           None \<Rightarrow> Some (Inl (Exc KeyError (repr field)))
         | Some v \<Rightarrow> Some (Inr v))
      else render field)"

definition finish ::
  "(string \<Rightarrow> (exc + string) option) \<Rightarrow> (string \<Rightarrow> string option) \<Rightarrow> string
     \<Rightarrow> (exc + string) option \<Rightarrow> (exc + string) option" where
  \<comment> \<open>the value of a field that has been read, before what the rest of the template
      formats to\<close>
  "finish render kwargs field rest =
     (case field_value render kwargs field of
        None \<Rightarrow> None
      | Some (Inl e) \<Rightarrow> Some (Inl e)
      | Some (Inr v) \<Rightarrow> prepend v rest)"

fun format_with ::
    "(string \<Rightarrow> (exc + string) option) \<Rightarrow> (string \<Rightarrow> string option) \<Rightarrow> string
       \<Rightarrow> (exc + string) option"
  and scan_name ::
    "(string \<Rightarrow> (exc + string) option) \<Rightarrow> (string \<Rightarrow> string option) \<Rightarrow> string \<Rightarrow> string
       \<Rightarrow> (exc + string) option"
  and scan_index ::
    "(string \<Rightarrow> (exc + string) option) \<Rightarrow> (string \<Rightarrow> string option) \<Rightarrow> string \<Rightarrow> string
       \<Rightarrow> (exc + string) option"
  and scan_spec ::
    "(string \<Rightarrow> (exc + string) option) \<Rightarrow> (string \<Rightarrow> string option) \<Rightarrow> string \<Rightarrow> nat
       \<Rightarrow> string \<Rightarrow> (exc + string) option"
where
  "format_with render kwargs [] = Some (Inr [])"
| "format_with render kwargs (c # cs) =
     (if c = CHR ''{'' then
        (case cs of
           [] \<Rightarrow> Some (Inl single_open)
         | d # ds \<Rightarrow> if d = CHR ''{'' then prepend ''{'' (format_with render kwargs ds)
                     else scan_name render kwargs [] cs)
      else if c = CHR ''}'' then
        (case cs of
           [] \<Rightarrow> Some (Inl single_close)
         | d # ds \<Rightarrow> if d = CHR ''}'' then prepend ''}'' (format_with render kwargs ds)
                     else Some (Inl single_close))
      else prepend [c] (format_with render kwargs cs))"
| "scan_name render kwargs field [] = Some (Inl unclosed_field)"
| "scan_name render kwargs field (c # cs) =
     (if c = CHR ''{'' then Some (Inl open_in_name)
      else if c = CHR ''['' then scan_index render kwargs (field @ [c]) cs
      else if c = CHR ''}'' then finish render kwargs field (format_with render kwargs cs)
      else if c = CHR '':'' then scan_spec render kwargs (field @ [c]) 1 cs
      else if c = CHR ''!'' then
        (case cs of
           [] \<Rightarrow> Some (Inl no_conversion)
         | conversion # ds \<Rightarrow>
             (case ds of
                [] \<Rightarrow> Some (Inl unmatched_spec)
              | d # es \<Rightarrow>
                  if d = CHR ''}''
                  then finish render kwargs (field @ [c, conversion])
                         (format_with render kwargs es)
                  else if d \<noteq> CHR '':'' then Some (Inl no_colon)
                  else scan_spec render kwargs (field @ [c, conversion, d]) 1 es))
      else scan_name render kwargs (field @ [c]) cs)"
| "scan_index render kwargs field [] = Some (Inl unclosed_field)"
| "scan_index render kwargs field (c # cs) =
     (if c = CHR '']'' then scan_name render kwargs (field @ [c]) cs
      else scan_index render kwargs (field @ [c]) cs)"
| "scan_spec render kwargs field count [] = Some (Inl unmatched_spec)"
| "scan_spec render kwargs field count (c # cs) =
     (if c = CHR ''{'' then scan_spec render kwargs (field @ [c]) (Suc count) cs
      else if c = CHR ''}'' then
        (if count \<le> 1 then finish render kwargs field (format_with render kwargs cs)
         else scan_spec render kwargs (field @ [c]) (count - 1) cs)
      else scan_spec render kwargs (field @ [c]) count cs)"

definition format_text :: "(string \<Rightarrow> string option) \<Rightarrow> string \<Rightarrow> (exc + string) option" where
  \<comment> \<open>with nothing known of the fields that are not plain names\<close>
  "format_text kwargs template = format_with (\<lambda>field. None) kwargs template"

section \<open>Tools and the agent\<close>

text \<open>
  The model and the tools are callables supplied from outside. A call is given the
  state of the world outside the agent and returns either a string or a raised
  exception, and the world after the call. The callables reach the agent only through
  their arguments.
\<close>

record 'w Tool =
  name :: string
  description :: string
  func :: "string \<Rightarrow> 'w \<Rightarrow> (exc + string) \<times> 'w"

record 'w Agent =
  llm :: "string \<Rightarrow> 'w \<Rightarrow> (exc + string) \<times> 'w"
  tools :: "'w Tool list"
  verbose :: bool

definition PREFIX :: string where
  "PREFIX = ''Answer the following question as best you can. You have access to the following tools:''"

definition SUFFIX :: string where
  "SUFFIX = ''Begin\<newline>\<newline>Question: {question}\<newline>''"

definition INSTRUCTIONS :: string where
  "INSTRUCTIONS = ''Use the following format:\<newline>\<newline>Question: the input question you must answer\<newline>Thought: you should always think about what to do next\<newline>Action: the action to take, should be one of {tool_names}\<newline>Action Input: The input to the action\<newline>Observation: the result of the action\<newline>... (this Thought/Action/Action Input/Observation can repeat N times)\<newline>Thought: I now know the final answer\<newline>Final Answer: the final answer to the original input question''"

definition tool_descriptions :: "'w Agent \<Rightarrow> string" where
  "tool_descriptions a =
     join ''\<newline>\<newline>'' (map (\<lambda>tool. name tool @ '': '' @ description tool) (tools a))"

definition tool_dict :: "'w Agent \<Rightarrow> string \<Rightarrow> 'w Tool option" where
  \<comment> \<open>a dictionary comprehension: of two tools of one name the later one stays\<close>
  "tool_dict a = fold (\<lambda>tool d. d(name tool \<mapsto> tool)) (tools a) Map.empty"

definition tool_names :: "'w Agent \<Rightarrow> string list" where
  "tool_names a = map name (tools a)"

definition create_prompt ::
  "'w Agent \<Rightarrow> string \<Rightarrow> string \<Rightarrow> string \<Rightarrow> string \<Rightarrow> (exc + string) option" where
  "create_prompt a question prefix suffix instructions =
     format_text
       (map_of [(''question'', question), (''tool_names'', str_list (tool_names a))])
       (prefix @ ''\<newline>\<newline>'' @ tool_descriptions a @ ''\<newline>\<newline>'' @ instructions
          @ ''\<newline>\<newline>'' @ suffix)"

text \<open>
  \<^verbatim>\<open>create_prompt\<close> with a renderer, which is given the question and the tool names
  besides the field. \<open>format_call\<close> is the call
  \<^verbatim>\<open>template.format(question=question, tool_names=names)\<close>. \<open>create_prompt\<close> above is
  \<open>create_prompt_with\<close> for the renderer that knows nothing.
\<close>

definition format_call ::
  "(string \<Rightarrow> string list \<Rightarrow> string \<Rightarrow> (exc + string) option) \<Rightarrow> string \<Rightarrow> string list
     \<Rightarrow> string \<Rightarrow> (exc + string) option" where
  "format_call render question names template =
     format_with (render question names)
       (map_of [(''question'', question), (''tool_names'', str_list names)]) template"

definition create_prompt_with ::
  "(string \<Rightarrow> string list \<Rightarrow> string \<Rightarrow> (exc + string) option) \<Rightarrow> 'w Agent \<Rightarrow> string
     \<Rightarrow> string \<Rightarrow> string \<Rightarrow> string \<Rightarrow> (exc + string) option" where
  "create_prompt_with render a question prefix suffix instructions =
     format_call render question (tool_names a)
       (prefix @ ''\<newline>\<newline>'' @ tool_descriptions a @ ''\<newline>\<newline>'' @ instructions
          @ ''\<newline>\<newline>'' @ suffix)"

text \<open>
  What the agent does to the outside is kept as a trace: the texts it prints and the
  calls it makes to the model and to the tools.
\<close>

datatype event =
    Print string
  | Print_action action
  | Call_llm string
  | Call_tool string string

text \<open>
  \<^verbatim>\<open>run_tool\<close> returns what it returns or raises, the world after it, and the calls it
  made. A \<^verbatim>\<open>Tool\<close> object is true in a condition, so \<^verbatim>\<open>if the_tool\<close> asks whether the name
  was found. \<^verbatim>\<open>except Exception\<close> catches the instances of \<^verbatim>\<open>Exception\<close> and lets any other
  exception pass.
\<close>

definition run_tool ::
  "'w Agent \<Rightarrow> string \<Rightarrow> string \<Rightarrow> 'w \<Rightarrow> (exc + string) \<times> 'w \<times> event list" where
  "run_tool a tool_name tool_input w =
     (case tool_dict a tool_name of
        Some the_tool \<Rightarrow>
          (case func the_tool tool_input w of
             (Inr out, w') \<Rightarrow> (Inr out, w', [Call_tool tool_name tool_input])
           | (Inl e, w') \<Rightarrow>
               if is_Exception (class_of e)
               then (Inr (''Tool encountered an error: '' @ str_of e), w',
                     [Call_tool tool_name tool_input])
               else (Inl e, w', [Call_tool tool_name tool_input]))
      | None \<Rightarrow> (Inr (''No tool with the name '' @ tool_name @ '' found''), w, []))"

section \<open>The loop\<close>

text \<open>
  The state of a call of \<^verbatim>\<open>run\<close>: the agent it was called on, the local variable
  \<^verbatim>\<open>prompt\<close>, the world outside and the trace so far. The result of \<^verbatim>\<open>run\<close> is the
  dictionary with the keys \<^verbatim>\<open>response\<close> and \<^verbatim>\<open>full_text\<close>.
\<close>

record 'w run_state =
  self :: "'w Agent"
  prompt :: string
  world :: 'w
  trace :: "event list"

record run_result =
  response :: string
  full_text :: string

text \<open>
  How a pass through the loop body ends, and what \<^verbatim>\<open>run\<close> has come to after a number
  of passes: the loop goes on, the function has returned, an exception has left it, or
  the initial prompt is outside the fragment of \<^verbatim>\<open>str.format\<close> modelled here.
\<close>

datatype outcome = Continue | Return run_result | Raise exc | Not_modelled

definition verbose_print :: "'w run_state \<Rightarrow> event list \<Rightarrow> 'w run_state" where
  "verbose_print s evs = (if verbose (self s) then s\<lparr>trace := trace s @ evs\<rparr> else s)"

definition string_index_error :: exc where
  \<comment> \<open>\<^verbatim>\<open>action['Action']\<close> when \<^verbatim>\<open>action\<close> is a \<^verbatim>\<open>str\<close>\<close>
  "string_index_error = Exc TypeError ''string indices must be integers''"

definition tool_step ::
  "'w run_state \<Rightarrow> string \<Rightarrow> string \<Rightarrow> string \<Rightarrow> outcome \<times> 'w run_state" where
  \<comment> \<open>source lines 205 to 218\<close>
  "tool_step s tool input thought =
     (case run_tool (self s) tool input (world s) of
        (Inl e, w, evs) \<Rightarrow> (Raise e, s\<lparr>world := w, trace := trace s @ evs\<rparr>)
      | (Inr out, w, evs) \<Rightarrow>
          (let tool_response = (if out = [] then ''Tool returned no results'' else out);
               s1 = s\<lparr>prompt := prompt s @ thought @ ''\<newline>Action: '' @ tool
                                 @ ''\<newline>Action Input: '' @ input
                                 @ ''\<newline>Observation: '' @ tool_response @ ''\<newline>'',
                       world := w, trace := trace s @ evs\<rparr>
           in (Continue,
               verbose_print s1
                 [Print ''NEW PROMPT:'', Print ''\<newline>'', Print (prompt s1),
                  Print ''\<newline>\<newline>''])))"

definition answer_step :: "'w run_state \<Rightarrow> string \<Rightarrow> string \<Rightarrow> outcome \<times> 'w run_state" where
  \<comment> \<open>source lines 221 to 230\<close>
  "answer_step s answer thought =
     (let s1 = s\<lparr>prompt := prompt s @ thought @ ''\<newline>Final Answer: '' @ answer\<rparr>
      in (Return \<lparr>response = answer, full_text = prompt s1\<rparr>,
          verbose_print s1 [Print ''FINAL TEXT:'', Print ''\<newline>'', Print (prompt s1)]))"

text \<open>
  One pass through the body of \<^verbatim>\<open>while True\<close> (source lines 188 to 230). A dictionary
  that \<^verbatim>\<open>parse_output\<close> returns has \<^verbatim>\<open>'tool'\<close> or \<^verbatim>\<open>'answer'\<close> under \<^verbatim>\<open>'Action'\<close>, so the
  two branches of the source are all there is for a dictionary; for the plain string
  the subscript \<^verbatim>\<open>action['Action']\<close> raises.
\<close>

definition loop_body :: "'w run_state \<Rightarrow> outcome \<times> 'w run_state" where
  "loop_body s =
     (case llm (self s) (prompt s) (world s) of
        (Inl e, w) \<Rightarrow> (Raise e, s\<lparr>world := w, trace := trace s @ [Call_llm (prompt s)]\<rparr>)
      | (Inr reply, w) \<Rightarrow>
          (let s1 = verbose_print (s\<lparr>world := w, trace := trace s @ [Call_llm (prompt s)]\<rparr>)
                      [Print ''MODEL RESPONSE:'', Print ''\<newline>'', Print reply,
                       Print ''\<newline>\<newline>''];
               parsed = parse_output reply;
               s2 = s1\<lparr>trace := trace s1 @ map Print (fst parsed)\<rparr>
           in case snd parsed of
                Inl e \<Rightarrow> (Raise e, s2)
              | Inr action \<Rightarrow>
                  (let s3 = verbose_print s2
                              [Print ''PARSED ACTION:'', Print ''\<newline>'', Print_action action,
                               Print ''\<newline>\<newline>'']
                   in case action of
                        Tool_call tool input thought \<Rightarrow> tool_step s3 tool input thought
                      | Final_answer answer thought \<Rightarrow> answer_step s3 answer thought
                      | Unparsed text \<Rightarrow> (Raise string_index_error, s3))))"

text \<open>
  \<^verbatim>\<open>while True\<close> may go on for ever. \<open>run_loop n\<close> makes at most \<open>n\<close> passes; the
  outcome \<open>Continue\<close> says that the loop is still going after them.
\<close>

fun run_loop :: "nat \<Rightarrow> 'w run_state \<Rightarrow> outcome \<times> 'w run_state" where
  "run_loop 0 s = (Continue, s)"
| "run_loop (Suc n) s =
     (case loop_body s of
        (Continue, s') \<Rightarrow> run_loop n s'
      | (r, s') \<Rightarrow> (r, s'))"

definition run :: "nat \<Rightarrow> 'w Agent \<Rightarrow> string \<Rightarrow> 'w \<Rightarrow> outcome \<times> 'w run_state" where
  "run n a question w =
     (case create_prompt a question PREFIX SUFFIX INSTRUCTIONS of
        None \<Rightarrow> (Not_modelled, \<lparr>self = a, prompt = [], world = w, trace = []\<rparr>)
      | Some (Inl e) \<Rightarrow> (Raise e, \<lparr>self = a, prompt = [], world = w, trace = []\<rparr>)
      | Some (Inr p) \<Rightarrow>
          run_loop n
            (verbose_print \<lparr>self = a, prompt = p, world = w, trace = []\<rparr>
               [Print ''INITIAL PROMPT:'', Print ''\<newline>'', Print p, Print ''\<newline>\<newline>'']))"

section \<open>Construction\<close>

text \<open>
  The constructor takes any Python values for \<^verbatim>\<open>tools\<close> and \<^verbatim>\<open>verbose\<close>. A value is a
  \<^verbatim>\<open>bool\<close>, a \<^verbatim>\<open>Tool\<close>, a \<^verbatim>\<open>list\<close>, or an object of another type, which is given by the
  text that \<^verbatim>\<open>type(value)\<close> formats to. The model-calling function is stored as it is.
\<close>

datatype 'w pyval = PyBool bool | PyTool "'w Tool" | PyList "'w pyval list" | PyOther string

fun type_str :: "'w pyval \<Rightarrow> string" where
  \<comment> \<open>\<^verbatim>\<open>f'{type(value)}'\<close>; the module of \<^verbatim>\<open>Tool\<close> is that of the langchain 0.0 releases\<close>
  "type_str (PyBool b) = ''<class 'bool'>''"
| "type_str (PyTool t) = ''<class 'langchain.tools.base.Tool'>''"
| "type_str (PyList vs) = ''<class 'list'>''"
| "type_str (PyOther t) = t"

fun is_Tool :: "'w pyval \<Rightarrow> bool" where
  "is_Tool (PyTool t) = True"
| "is_Tool _ = False"

fun tools_among :: "'w pyval list \<Rightarrow> 'w Tool list" where
  \<comment> \<open>the tools of a list of values; for a list of tools, the list as it is\<close>
  "tools_among [] = []"
| "tools_among (PyTool t # vs) = t # tools_among vs"
| "tools_among (v # vs) = tools_among vs"

definition tools_setter :: "'w pyval \<Rightarrow> exc + 'w Tool list" where
  "tools_setter value =
     (case value of
        PyList vs \<Rightarrow>
          if \<not> list_all is_Tool vs
          then Inl (Exc TypeError ''All tools must be langchain Tool objects'')
          else Inr (tools_among vs)
      | PyTool t \<Rightarrow> Inr [t]
      | _ \<Rightarrow> Inl (Exc TypeError
                  (''tools must be langchain Tool or list of Tools, got '' @ type_str value)))"

definition verbose_setter :: "'w pyval \<Rightarrow> exc + bool" where
  "verbose_setter value =
     (case value of
        PyBool b \<Rightarrow> Inr b
      | _ \<Rightarrow> Inl (Exc TypeError (''verbose must be bool, got '' @ type_str value)))"

definition BaseModel_init :: "exc option" where
  \<comment> \<open>Modelled from the spec: \<^verbatim>\<open>BaseModel.__init__\<close>, called first by the constructor,
      is in \<^verbatim>\<open>BaseModel.py\<close>, which is not among the sources. The spec's construction
      contract has the two type errors of the setters as the only failures, so the
      call returns and raises nothing.\<close>
  "BaseModel_init = None"

definition Agent_init ::
  "(string \<Rightarrow> 'w \<Rightarrow> (exc + string) \<times> 'w) \<Rightarrow> 'w pyval \<Rightarrow> 'w pyval \<Rightarrow> exc + 'w Agent" where
  "Agent_init llm_value tools_value verbose_value =
     (case BaseModel_init of
        Some e \<Rightarrow> Inl e
      | None \<Rightarrow>
          (case tools_setter tools_value of
             Inl e \<Rightarrow> Inl e
           | Inr ts \<Rightarrow>
               (case verbose_setter verbose_value of
                  Inl e \<Rightarrow> Inl e
                | Inr b \<Rightarrow> Inr \<lparr>llm = llm_value, tools = ts, verbose = b\<rparr>)))"

section \<open>The words of the statements\<close>

text \<open>
  The text before the first colon of a line and the text after it; a line that has a
  colon and whose text before it, trimmed, is a given marker; the first line of an
  output that carries one of the two markers the parser knows.
\<close>

definition before_colon :: "string \<Rightarrow> string" where
  "before_colon l = takeWhile (\<lambda>c. c \<noteq> CHR '':'') l"

definition after_colon :: "string \<Rightarrow> string" where
  "after_colon l = tl (dropWhile (\<lambda>c. c \<noteq> CHR '':'') l)"

definition marker :: "string \<Rightarrow> string \<Rightarrow> bool" where
  "marker m l = (CHR '':'' \<in> set l \<and> strip (before_colon l) = m)"

definition recognized :: "string \<Rightarrow> bool" where
  "recognized l = (marker ''Action'' l \<or> marker ''Final Answer'' l)"

definition first_marker :: "string \<Rightarrow> string list \<Rightarrow> nat \<Rightarrow> bool" where
  "first_marker m lines idx =
     (idx < length lines \<and> marker m (lines ! idx) \<and> (\<forall>j<idx. \<not> recognized (lines ! j)))"


text \<open>The values the constructor accepts: a \<^verbatim>\<open>bool\<close>, and a list all of whose members are tools.\<close>

fun is_Bool :: "'w pyval \<Rightarrow> bool" where
  "is_Bool (PyBool b) = True"
| "is_Bool _ = False"

fun is_Tool_list :: "'w pyval \<Rightarrow> bool" where
  "is_Tool_list (PyList vs) = list_all is_Tool vs"
| "is_Tool_list _ = False"

text \<open>A text without braces; what \<^verbatim>\<open>str.format\<close> leaves as it is.\<close>

definition brace_free :: "string \<Rightarrow> bool" where
  "brace_free s = (CHR ''{'' \<notin> set s \<and> CHR ''}'' \<notin> set s)"

text \<open>\<^verbatim>\<open>sub in s\<close>: the text \<open>sub\<close> stands somewhere in the text \<open>s\<close>.\<close>

fun contains :: "string \<Rightarrow> string \<Rightarrow> bool" where
  "contains [] sub = (sub = [])"
| "contains (c # cs) sub = (startswith (c # cs) sub \<or> contains cs sub)"

text \<open>The calls in a trace, in their order: the trace without what was printed.\<close>

fun is_call :: "event \<Rightarrow> bool" where
  "is_call (Call_llm p) = True"
| "is_call (Call_tool n i) = True"
| "is_call _ = False"

definition calls :: "event list \<Rightarrow> event list" where
  "calls tr = filter is_call tr"

section \<open>Stubs\<close>

text \<open>
  The models and tools at which the theorems are instantiated: a tool that raises, and
  a model that never writes a marker.
\<close>

definition failing_tool :: "unit Tool" where
  "failing_tool =
     \<lparr>name = ''Boom'', description = ''Always fails'',
      func = (\<lambda>tool_input w. (Inl (Exc ValueError ''bad input''), w))\<rparr>"

definition silent_llm :: "string \<Rightarrow> unit \<Rightarrow> (exc + string) \<times> unit" where
  "silent_llm p w = (Inr ''no colons here'', w)"

definition failing_agent :: "unit Agent" where
  "failing_agent = \<lparr>llm = silent_llm, tools = [failing_tool], verbose = False\<rparr>"

text \<open>
  A tool that is interrupted, a tool whose description has doubled braces, and a
  renderer. A tool whose description has a replacement field. A tool and a model for the
  scenario of the spec: the world counts the calls to the model and to the tool, the
  model asks for the tool when it is called first and gives the final answer after
  that. Last, the prompt that scenario starts with.
\<close>

definition interrupted_tool :: "unit Tool" where
  \<comment> \<open>the callable is interrupted from the keyboard: \<^verbatim>\<open>KeyboardInterrupt()\<close>, whose text is
      empty\<close>
  "interrupted_tool =
     \<lparr>name = ''Wait'', description = ''Waits for an answer'',
      func = (\<lambda>tool_input w. (Inl (Exc BaseException []), w))\<rparr>"

definition interrupted_agent :: "unit Agent" where
  "interrupted_agent = \<lparr>llm = silent_llm, tools = [interrupted_tool], verbose = False\<rparr>"

definition set_tool :: "unit Tool" where
  "set_tool =
     \<lparr>name = ''Set'', description = ''Writes {{x}}'',
      func = (\<lambda>tool_input w. (Inr ''done'', w))\<rparr>"

definition repr_renderer :: "string \<Rightarrow> string list \<Rightarrow> string \<Rightarrow> (exc + string) option" where
  \<comment> \<open>a renderer that knows the field \<^verbatim>\<open>{question!r}\<close> and no other\<close>
  "repr_renderer question names field =
     (if field = ''question!r'' then Some (Inr (repr question)) else None)"

definition lookup_tool :: "unit Tool" where
  "lookup_tool =
     \<lparr>name = ''Lookup'', description = ''Looks up {term}'',
      func = (\<lambda>tool_input w. (Inr ''found'', w))\<rparr>"

definition search_tool :: "(nat \<times> nat) Tool" where
  "search_tool =
     \<lparr>name = ''Search'', description = ''Looks things up'',
      func = (\<lambda>tool_input w. (Inr ''Paris'', (fst w, Suc (snd w))))\<rparr>"

definition scripted_llm :: "string \<Rightarrow> nat \<times> nat \<Rightarrow> (exc + string) \<times> (nat \<times> nat)" where
  "scripted_llm p w =
     (if fst w = 0
      then Inr ''Thought: I should search\<newline>Action: Search\<newline>Action Input: capital of France\<newline>Observation: ignored''
      else Inr ''Thought: done\<newline>Final Answer: Paris'',
      (Suc (fst w), snd w))"

definition search_agent :: "(nat \<times> nat) Agent" where
  "search_agent = \<lparr>llm = scripted_llm, tools = [search_tool], verbose = False\<rparr>"

definition capital_prompt :: string where
  "capital_prompt = PREFIX @ ''\<newline>\<newline>Search: Looks things up\<newline>\<newline>''
       @ ''Use the following format:\<newline>\<newline>Question: the input question you must answer\<newline>Thought: you should always think about what to do next\<newline>Action: the action to take, should be one of ['Search']\<newline>Action Input: The input to the action\<newline>Observation: the result of the action\<newline>... (this Thought/Action/Action Input/Observation can repeat N times)\<newline>Thought: I now know the final answer\<newline>Final Answer: the final answer to the original input question''
       @ ''\<newline>\<newline>Begin\<newline>\<newline>Question: What is the capital of France?\<newline>''"

section \<open>Splitting and joining\<close>

lemma split_from_hd: "hd (split_from f sep s) = f @ takeWhile (\<lambda>c. c \<noteq> sep) s"
  by (induction s arbitrary: f) auto

lemma split_from_tl:
  "tl (split_from f sep s) =
     (if sep \<in> set s then split_from [] sep (tl (dropWhile (\<lambda>c. c \<noteq> sep) s)) else [])"
  by (induction s arbitrary: f) auto

lemma split_from_not_Nil: "split_from f sep s \<noteq> []"
  by (induction s arbitrary: f) auto

lemma join_Cons: "xs \<noteq> [] \<Longrightarrow> join sep (x # xs) = x @ sep @ join sep xs"
  by (cases xs) auto

lemma join_split_from: "join [sep] (split_from f sep s) = f @ s"
  by (induction s arbitrary: f) (auto simp: join_Cons split_from_not_Nil)

lemma hd_split: "hd (split sep s) = takeWhile (\<lambda>c. c \<noteq> sep) s"
  by (simp add: split_def split_from_hd)

lemma tl_split:
  "tl (split sep s) =
     (if sep \<in> set s then split sep (tl (dropWhile (\<lambda>c. c \<noteq> sep) s)) else [])"
  by (simp add: split_def split_from_tl)

lemma join_split: "join [sep] (split sep s) = s"
  by (simp add: split_def join_split_from)

lemma join_tl_split:
  "sep \<in> set s \<Longrightarrow> join [sep] (tl (split sep s)) = tl (dropWhile (\<lambda>c. c \<noteq> sep) s)"
  by (simp add: tl_split join_split)

lemma split_not_Nil: "split sep s \<noteq> []"
  by (simp add: split_def split_from_not_Nil)

lemma append_input_eq:
  "append_input lines j acc =
     acc @ concat (map (\<lambda>l. ''\<newline>'' @ l)
                    (takeWhile (\<lambda>l. \<not> startswith l ''Observation:'') (drop j lines)))"
proof (induction lines j acc rule: append_input.induct)
  case (1 lines j acc)
  show ?case
  proof (cases "j < length lines")
    case True
    then have d: "drop j lines = lines ! j # drop (Suc j) lines"
      by (simp add: Cons_nth_drop_Suc)
    show ?thesis
    proof (cases "startswith (lines ! j) ''Observation:''")
      case True
      have "append_input lines j acc = acc"
        using \<open>j < length lines\<close> True by (subst append_input.simps) simp
      then show ?thesis
        by (subst d) (simp add: True)
    next
      case False
      have "append_input lines j acc
              = append_input lines (Suc j) (acc @ ''\<newline>'' @ lines ! j)"
        using \<open>j < length lines\<close> False by (subst append_input.simps) simp
      also have "\<dots> = (acc @ ''\<newline>'' @ lines ! j)
            @ concat (map (\<lambda>l. ''\<newline>'' @ l)
                (takeWhile (\<lambda>l. \<not> startswith l ''Observation:'') (drop (Suc j) lines)))"
        using \<open>j < length lines\<close> False by (rule "1.IH")
      also have "\<dots> = acc @ concat (map (\<lambda>l. ''\<newline>'' @ l)
                (takeWhile (\<lambda>l. \<not> startswith l ''Observation:'') (drop j lines)))"
        by (subst d) (simp add: False)
      finally show ?thesis .
    qed
  next
    case False
    then show ?thesis
      by (subst append_input.simps) simp
  qed
qed


section \<open>What the parser returns\<close>

lemma scan_lines_step:
  "idx < length lines \<Longrightarrow> \<not> recognized (lines ! idx) \<Longrightarrow>
   scan_lines out lines idx = scan_lines out lines (Suc idx)"
  by (subst scan_lines.simps)
     (simp add: recognized_def marker_def before_colon_def hd_split)

lemma scan_lines_action:
  "idx < length lines \<Longrightarrow> marker ''Action'' (lines ! idx) \<Longrightarrow>
   scan_lines out lines idx = parse_action lines idx"
  by (subst scan_lines.simps) (simp add: marker_def before_colon_def hd_split)

lemma scan_lines_answer:
  "idx < length lines \<Longrightarrow> marker ''Final Answer'' (lines ! idx) \<Longrightarrow>
   scan_lines out lines idx = parse_answer lines idx"
  by (subst scan_lines.simps) (simp add: marker_def before_colon_def hd_split)

lemma scan_lines_end:
  "scan_lines out lines (length lines) = ([], Inr (Unparsed (out @ ''\<newline>'' @ no_action_warning)))"
  by (subst scan_lines.simps) simp

lemma scan_lines_skip:
  "\<forall>j. idx \<le> j \<and> j < k \<longrightarrow> \<not> recognized (lines ! j) \<Longrightarrow> idx \<le> k \<Longrightarrow> k \<le> length lines \<Longrightarrow>
   scan_lines out lines idx = scan_lines out lines k"
proof (induction "k - idx" arbitrary: idx)
  case 0
  then show ?case by simp
next
  case (Suc n)
  then have "idx < length lines" and "\<not> recognized (lines ! idx)"
    by auto
  then have "scan_lines out lines idx = scan_lines out lines (Suc idx)"
    by (rule scan_lines_step)
  also have "\<dots> = scan_lines out lines k"
    using Suc by (intro Suc.hyps(1)) auto
  finally show ?case .
qed

text \<open>
  C7. When no line of the output has a colon with \<^verbatim>\<open>Action\<close> or \<^verbatim>\<open>Final Answer\<close> as the
  trimmed text before it, \<^verbatim>\<open>parse_output\<close> prints nothing and returns a plain string:
  the output, a newline and the warning. The input \<^verbatim>\<open>no colons here\<close> of the spec is
  such an output.
\<close>

theorem parse_output_unparsed:
  assumes "\<forall>l \<in> set (splitlines output). \<not> recognized l"
  shows "parse_output output =
           ([], Inr (Unparsed (output @ ''\<newline>''
                       @ ''Warning: No parsable action detected. Be sure to '')))"
proof -
  have "scan_lines output (splitlines output) 0
          = scan_lines output (splitlines output) (length (splitlines output))"
    using assms by (intro scan_lines_skip) auto
  then show ?thesis
    by (simp add: parse_output_def scan_lines_end no_action_warning_def)
qed

theorem parse_output_unparsed_witness:
  "parse_output ''no colons here'' =
     ([], Inr (Unparsed
        ''no colons here\<newline>Warning: No parsable action detected. Be sure to ''))"
proof -
  have h: "\<forall>l \<in> set (splitlines ''no colons here''). \<not> recognized l"
    by (simp add: splitlines_def is_linebreak_def recognized_def marker_def)
  from parse_output_unparsed [OF h] show ?thesis by simp
qed

lemma second_field:
  assumes "sep \<in> set s"
  shows "\<exists>xs. tl (split sep s) = takeWhile (\<lambda>c. c \<noteq> sep) (tl (dropWhile (\<lambda>c. c \<noteq> sep) s)) # xs"
proof -
  let ?r = "tl (dropWhile (\<lambda>c. c \<noteq> sep) s)"
  have "tl (split sep s) = split sep ?r"
    using assms by (simp add: tl_split)
  moreover have "split sep ?r = hd (split sep ?r) # tl (split sep ?r)"
    by (simp add: split_not_Nil)
  ultimately show ?thesis
    by (metis hd_split)
qed

lemma parse_answer_eq:
  assumes "CHR '':'' \<in> set (lines ! idx)"
  shows "parse_answer lines idx =
           ([], Inr (Final_answer (strip (before_colon (after_colon (lines ! idx))))
                       (join ''\<newline>'' (take idx lines))))"
proof -
  from second_field [OF assms] obtain xs where
    "tl (split CHR '':'' (lines ! idx)) = before_colon (after_colon (lines ! idx)) # xs"
    by (auto simp: before_colon_def after_colon_def)
  then show ?thesis
    by (simp add: parse_answer_def)
qed

lemma parse_action_eq:
  assumes "Suc idx < length lines" and "CHR '':'' \<in> set (lines ! idx)"
    and "CHR '':'' \<in> set (lines ! Suc idx)"
  shows "parse_action lines idx =
           (if strip (before_colon (lines ! Suc idx)) \<noteq> ''Action Input''
            then [''Possible problem parsing action input''] else [],
            Inr (Tool_call (strip (after_colon (lines ! idx)))
                   (strip (before_colon (after_colon (lines ! Suc idx)))
                      @ concat (map (\<lambda>l. ''\<newline>'' @ l)
                          (takeWhile (\<lambda>l. \<not> startswith l ''Observation:'')
                             (drop (idx + 2) lines))))
                   (join ''\<newline>'' (take idx lines))))"
proof -
  from second_field [OF assms(3)] obtain xs where
    "tl (split CHR '':'' (lines ! Suc idx)) = before_colon (after_colon (lines ! Suc idx)) # xs"
    by (auto simp: before_colon_def after_colon_def)
  moreover have "join '':'' (tl (split CHR '':'' (lines ! idx))) = after_colon (lines ! idx)"
    using join_tl_split [OF assms(2)] by (simp add: after_colon_def)
  ultimately show ?thesis
    using assms(1)
    by (simp add: parse_action_def append_input_eq hd_split before_colon_def)
qed

lemma parse_action_raises:
  assumes "\<not> Suc idx < length lines \<or> CHR '':'' \<notin> set (lines ! Suc idx)"
  shows "snd (parse_action lines idx) = Inl list_index_out_of_range"
  using assms by (auto simp: parse_action_def tl_split Let_def)

lemma parse_output_first_marker:
  assumes "first_marker m (splitlines output) idx"
  shows "parse_output output = scan_lines output (splitlines output) idx"
  unfolding parse_output_def
  using assms by (intro scan_lines_skip) (auto simp: first_marker_def)

text \<open>
  What the parser returns for an output whose first marker is \<^verbatim>\<open>Final Answer\<close>: the
  answer is the trimmed text between the first colon of that line and its second one,
  or the end of the line when there is no second colon.
\<close>

lemma parse_output_final_answer:
  assumes "first_marker ''Final Answer'' (splitlines output) idx"
  shows "parse_output output =
           ([], Inr (Final_answer
                       (strip (before_colon (after_colon (splitlines output ! idx))))
                       (join ''\<newline>'' (take idx (splitlines output)))))"
  using assms
  by (simp add: parse_output_first_marker [OF assms] first_marker_def scan_lines_answer
        parse_answer_eq marker_def)

lemma before_colon_no_colon: "CHR '':'' \<notin> set l \<Longrightarrow> before_colon l = l"
  by (auto simp: before_colon_def takeWhile_eq_all_conv)

text \<open>
  What the parser returns for an output whose first marker is \<^verbatim>\<open>Action\<close>. When the next
  line has a colon: the warning if the text before that colon, trimmed, is not
  \<^verbatim>\<open>Action Input\<close>, and a tool call with the trimmed text after the first colon of the
  \<^verbatim>\<open>Action\<close> line as the tool, with the trimmed field after the first colon of the next
  line and then, each after a newline, the lines up to the first that starts with
  \<^verbatim>\<open>Observation:\<close> as the input, and with the lines before the \<^verbatim>\<open>Action\<close> line as the
  thought. When there is no next line, or it has no colon: \<^verbatim>\<open>IndexError\<close>.
\<close>

lemma parse_output_tool_call:
  assumes "first_marker ''Action'' (splitlines output) idx"
    and "Suc idx < length (splitlines output)"
    and "CHR '':'' \<in> set (splitlines output ! Suc idx)"
  shows "parse_output output =
           (if strip (before_colon (splitlines output ! Suc idx)) \<noteq> ''Action Input''
            then [''Possible problem parsing action input''] else [],
            Inr (Tool_call (strip (after_colon (splitlines output ! idx)))
                   (strip (before_colon (after_colon (splitlines output ! Suc idx)))
                      @ concat (map (\<lambda>l. ''\<newline>'' @ l)
                          (takeWhile (\<lambda>l. \<not> startswith l ''Observation:'')
                             (drop (idx + 2) (splitlines output)))))
                   (join ''\<newline>'' (take idx (splitlines output)))))"
proof -
  from assms(1) have "scan_lines output (splitlines output) idx = parse_action (splitlines output) idx"
      and "CHR '':'' \<in> set (splitlines output ! idx)"
    by (simp_all add: first_marker_def scan_lines_action marker_def)
  then show ?thesis
    using parse_output_first_marker [OF assms(1)] parse_action_eq [OF assms(2) _ assms(3)]
    by simp
qed

lemma parse_output_tool_call_raises:
  assumes "first_marker ''Action'' (splitlines output) idx"
    and "\<not> Suc idx < length (splitlines output) \<or> CHR '':'' \<notin> set (splitlines output ! Suc idx)"
  shows "snd (parse_output output) = Inl list_index_out_of_range"
proof -
  from assms(1) have "scan_lines output (splitlines output) idx = parse_action (splitlines output) idx"
    by (simp add: first_marker_def scan_lines_action)
  then show ?thesis
    using parse_output_first_marker [OF assms(1)] parse_action_raises [OF assms(2)]
    by simp
qed

text \<open>The equations that evaluate the parser on a given output.\<close>

lemmas parse_output_eval = parse_output_def splitlines_def is_linebreak_def scan_lines.simps parse_answer_def parse_action_def
  strip_def isspace_def split_def append_input.simps startswith_def list_index_out_of_range_def after_colon_def

text \<open>
  C2. The answer is meant to be everything after the first colon of the
  \<^verbatim>\<open>Final Answer\<close> line, trimmed. The parser takes \<^verbatim>\<open>split(':')[1]\<close>, the field between
  the first colon and the second, so for the line \<^verbatim>\<open>Final Answer: 10:30\<close> the record
  holds \<^verbatim>\<open>10\<close>, while the trimmed text after the first colon is \<^verbatim>\<open>10:30\<close>. The tool name
  in the \<^verbatim>\<open>Action\<close> branch is taken with \<^verbatim>\<open>':'.join(split(':')[1:])\<close>, which keeps the
  colons.
\<close>

theorem parse_output_answer_cut:
  "parse_output ''Thought: done\<newline>Final Answer: 10:30''
     = ([], Inr (Final_answer ''10'' ''Thought: done'')) \<and>
   strip (after_colon ''Final Answer: 10:30'') = ''10:30''"
  by (simp add: parse_output_eval)

text \<open>
  C1. An output whose first marker is \<^verbatim>\<open>Action\<close> is meant to give a tool-call record
  whose input starts with the trimmed text after the colon of the next line. For the
  next line \<^verbatim>\<open>Action Input: https://example.com\<close> the record holds \<^verbatim>\<open>https\<close>, the field
  up to the second colon, and for an output that ends with the \<^verbatim>\<open>Action\<close> line no
  record is returned: \<^verbatim>\<open>lines[idx + 1]\<close> raises \<^verbatim>\<open>IndexError\<close>.
\<close>

theorem parse_output_input_cut:
  "parse_output ''Action: Search\<newline>Action Input: https://example.com''
     = ([], Inr (Tool_call ''Search'' ''https'' [])) \<and>
   strip (after_colon ''Action Input: https://example.com'') = ''https://example.com'' \<and>
   parse_output ''Action: Search'' = ([], Inl (Exc IndexError ''list index out of range''))"
  by (simp add: parse_output_eval)

text \<open>
  C5. A line after the \<^verbatim>\<open>Action\<close> line that does not start with \<^verbatim>\<open>Action Input\<close> is meant
  to cost a printed warning and nothing more. When that line has no colon, the warning
  is printed and then \<^verbatim>\<open>split(':')[1]\<close> raises \<^verbatim>\<open>IndexError\<close>.
\<close>

theorem parse_output_no_input_raises:
  "parse_output ''Action: Search\<newline>Search for Paris''
     = ([''Possible problem parsing action input''],
        Inl (Exc IndexError ''list index out of range''))"
  by (simp add: parse_output_eval)

text \<open>The three outputs of the spec that carry a marker, parsed as the spec says.\<close>

lemma parse_output_spec_examples:
  "parse_output ''Thought: I should search\<newline>Action: Search\<newline>Action Input: capital of France\<newline>Observation: ignored''
     = ([], Inr (Tool_call ''Search'' ''capital of France'' ''Thought: I should search''))"
  "parse_output ''Thought: done\<newline>Final Answer: Paris''
     = ([], Inr (Final_answer ''Paris'' ''Thought: done''))"
  "parse_output ''Action: Search\<newline>Action Input: line one\<newline>extra line\<newline>Observation: x''
     = ([], Inr (Tool_call ''Search'' ''line one\<newline>extra line'' []))"
  by (simp_all add: parse_output_eval)

section \<open>Running a tool\<close>

text \<open>
  The tool mapping has the names of the tools as its keys, and with tools of different
  names it maps each name to its tool.
\<close>

lemma dom_tool_dict: "dom (tool_dict a) = set (tool_names a)"
proof -
  have "dom (fold (\<lambda>tool d. d(name tool \<mapsto> tool)) ts m) = dom m \<union> set (map name ts)"
    for ts :: "'a Tool list" and m
    by (induction ts arbitrary: m) auto
  then show ?thesis
    by (simp add: tool_dict_def tool_names_def)
qed

lemma tool_dict_distinct:
  assumes "distinct (tool_names a)" and "t \<in> set (tools a)"
  shows "tool_dict a (name t) = Some t"
proof -
  have "distinct (map name ts) \<Longrightarrow> t \<in> set ts \<Longrightarrow>
        fold (\<lambda>tool d. d(name tool \<mapsto> tool)) ts Map.empty (name t) = Some t"
    for ts :: "'a Tool list"
  proof (induction ts rule: rev_induct)
    case Nil
    then show ?case by simp
  next
    case (snoc x xs)
    show ?case
    proof (cases "t = x")
      case True
      then show ?thesis by simp
    next
      case False
      with snoc.prems have "t \<in> set xs"
        by simp
      moreover from this snoc.prems(1) have "name t \<noteq> name x"
        by (auto simp: image_iff)
      ultimately show ?thesis
        using snoc by simp
    qed
  qed
  with assms show ?thesis
    by (simp add: tool_dict_def tool_names_def)
qed

lemma run_tool_unregistered:
  "tool_dict a n = None \<Longrightarrow>
   run_tool a n i w = (Inr (''No tool with the name '' @ n @ '' found''), w, [])"
  by (simp add: run_tool_def)

lemma run_tool_returns:
  "tool_dict a n = Some t \<Longrightarrow> func t i w = (Inr out, w') \<Longrightarrow>
   run_tool a n i w = (Inr out, w', [Call_tool n i])"
  by (simp add: run_tool_def)

lemma run_tool_catches:
  "tool_dict a n = Some t \<Longrightarrow> func t i w = (Inl e, w') \<Longrightarrow> is_Exception (class_of e) \<Longrightarrow>
   run_tool a n i w = (Inr (''Tool encountered an error: '' @ str_of e), w', [Call_tool n i])"
  by (simp add: run_tool_def)

lemma run_tool_passes:
  "tool_dict a n = Some t \<Longrightarrow> func t i w = (Inl e, w') \<Longrightarrow> \<not> is_Exception (class_of e) \<Longrightarrow>
   run_tool a n i w = (Inl e, w', [Call_tool n i])"
  by (simp add: run_tool_def)

text \<open>
  When \<^verbatim>\<open>run_tool\<close> raises, the name is that of a registered tool, the exception is the
  one that the tool's callable raised, and it is not an instance of \<^verbatim>\<open>Exception\<close>.
\<close>

lemma run_tool_raises:
  assumes "fst (run_tool a n i w) = Inl e"
  shows "\<not> is_Exception (class_of e) \<and>
         (\<exists>t w'. tool_dict a n = Some t \<and> func t i w = (Inl e, w'))"
proof (cases "tool_dict a n")
  case None
  with assms show ?thesis
    by (simp add: run_tool_unregistered)
next
  case (Some t)
  obtain r w' where call: "func t i w = (r, w')"
    by (cases "func t i w")
  show ?thesis
  proof (cases r)
    case (Inl x)
    show ?thesis
    proof (cases "is_Exception (class_of x)")
      case True
      with Some call Inl assms show ?thesis
        by (simp add: run_tool_catches)
    next
      case False
      with Some call Inl assms show ?thesis
        by (simp add: run_tool_passes)
    qed
  next
    case (Inr out)
    with Some call assms show ?thesis
      by (simp add: run_tool_returns)
  qed
qed

text \<open>
  C6, as stated, fails. A tool whose callable is interrupted from the keyboard raises
  \<^verbatim>\<open>KeyboardInterrupt\<close>, which is not an instance of \<^verbatim>\<open>Exception\<close>: the \<^verbatim>\<open>except\<close> clause
  does not catch it, and \<^verbatim>\<open>run_tool\<close> raises it.
\<close>

theorem run_tool_counterexample:
  "tool_dict interrupted_agent ''Wait'' = Some interrupted_tool \<and>
   func interrupted_tool ''now'' () = (Inl (Exc BaseException []), ()) \<and>
   run_tool interrupted_agent ''Wait'' ''now'' ()
     = (Inl (Exc BaseException []), (), [Call_tool ''Wait'' ''now''])"
  by (simp add: run_tool_def tool_dict_def interrupted_agent_def interrupted_tool_def)

text \<open>
  C6, amended. \<^verbatim>\<open>run_tool\<close> raises nothing of its own, and of what the tool's callable
  raises it lets pass only what is not an instance of \<^verbatim>\<open>Exception\<close>, the class the
  \<^verbatim>\<open>except\<close> clause names. For a name that is not in the tool mapping it returns
  \<^verbatim>\<open>No tool with the name\<close>, the name, \<^verbatim>\<open>found\<close>. For a registered tool whose callable
  raises an instance of \<^verbatim>\<open>Exception\<close> it returns \<^verbatim>\<open>Tool encountered an error:\<close> followed
  by the exception's message. Whenever it raises, the name is registered, what is raised
  is what the callable raised, and that is not an instance of \<^verbatim>\<open>Exception\<close>.
\<close>

theorem run_tool_raises_only_outside_Exception:
  "(tool_dict a tool_name = None \<longrightarrow>
      fst (run_tool a tool_name tool_input w)
        = Inr (''No tool with the name '' @ tool_name @ '' found'')) \<and>
   (\<forall>t e w'. tool_dict a tool_name = Some t \<and> func t tool_input w = (Inl e, w') \<and>
              is_Exception (class_of e)
      \<longrightarrow> fst (run_tool a tool_name tool_input w)
            = Inr (''Tool encountered an error: '' @ str_of e)) \<and>
   (\<forall>e. fst (run_tool a tool_name tool_input w) = Inl e
      \<longrightarrow> \<not> is_Exception (class_of e) \<and>
          (\<exists>t w'. tool_dict a tool_name = Some t \<and> func t tool_input w = (Inl e, w')))"
proof (intro conjI allI impI)
  assume "tool_dict a tool_name = None"
  then show "fst (run_tool a tool_name tool_input w)
      = Inr (''No tool with the name '' @ tool_name @ '' found'')"
    by (simp add: run_tool_unregistered)
next
  fix t e w'
  assume "tool_dict a tool_name = Some t \<and> func t tool_input w = (Inl e, w') \<and>
          is_Exception (class_of e)"
  then show "fst (run_tool a tool_name tool_input w)
      = Inr (''Tool encountered an error: '' @ str_of e)"
    by (simp add: run_tool_catches)
next
  fix e
  assume "fst (run_tool a tool_name tool_input w) = Inl e"
  from run_tool_raises [OF this] show "\<not> is_Exception (class_of e)" ..
next
  fix e
  assume "fst (run_tool a tool_name tool_input w) = Inl e"
  from run_tool_raises [OF this]
  show "\<exists>t w'. tool_dict a tool_name = Some t \<and> func t tool_input w = (Inl e, w')" ..
qed

theorem run_tool_raises_only_outside_Exception_witness:
  "fst (run_tool failing_agent ''Missing'' ''x'' ()) = Inr ''No tool with the name Missing found'' \<and>
   fst (run_tool failing_agent ''Boom'' ''x'' ()) = Inr ''Tool encountered an error: bad input'' \<and>
   fst (run_tool interrupted_agent ''Wait'' ''x'' ()) = Inl (Exc BaseException []) \<and>
   \<not> is_Exception (class_of (Exc BaseException []))"
proof -
  have d: "tool_dict failing_agent ''Boom'' = Some failing_tool"
      "tool_dict failing_agent ''Missing'' = None"
    by (simp_all add: tool_dict_def failing_agent_def failing_tool_def)
  have c: "func failing_tool ''x'' () = (Inl (Exc ValueError ''bad input''), ())"
      "is_Exception (class_of (Exc ValueError ''bad input''))"
    by (simp_all add: failing_tool_def)
  have r: "fst (run_tool interrupted_agent ''Wait'' ''x'' ()) = Inl (Exc BaseException [])"
    by (simp add: run_tool_def tool_dict_def interrupted_agent_def interrupted_tool_def)
  from run_tool_raises_only_outside_Exception [of failing_agent "''Missing''" "''x''" "()"] d
  have 1: "fst (run_tool failing_agent ''Missing'' ''x'' ())
      = Inr ''No tool with the name Missing found''"
    by simp
  from run_tool_raises_only_outside_Exception [of failing_agent "''Boom''" "''x''" "()"] d c
  have 2: "fst (run_tool failing_agent ''Boom'' ''x'' ())
      = Inr ''Tool encountered an error: bad input''"
    by fastforce
  from run_tool_raises_only_outside_Exception [of interrupted_agent "''Wait''" "''x''" "()"] r
  have 3: "\<not> is_Exception (class_of (Exc BaseException []))"
    by blast
  from 1 2 r 3 show ?thesis
    by blast
qed

section \<open>Constructing an agent\<close>

lemma tools_of_list: "list_all is_Tool vs \<Longrightarrow> map PyTool (tools_among vs) = vs"
  by (induction vs rule: tools_among.induct) simp_all

text \<open>
  C9. The constructor fails with a \<^verbatim>\<open>TypeError\<close> when \<^verbatim>\<open>verbose\<close> is not a \<^verbatim>\<open>bool\<close>, and
  when \<^verbatim>\<open>tools\<close> is neither a tool nor a list of tools; with a tool or a list of tools
  and a \<^verbatim>\<open>bool\<close> it succeeds, and the agent holds the model, the tools and the flag it
  was given.
\<close>

theorem Agent_init_type_errors:
  "(\<not> is_Bool verbose_value
      \<longrightarrow> (\<exists>m. Agent_init l tools_value verbose_value = Inl (Exc TypeError m))) \<and>
   (\<not> is_Tool tools_value \<and> \<not> is_Tool_list tools_value
      \<longrightarrow> (\<exists>m. Agent_init l tools_value verbose_value = Inl (Exc TypeError m))) \<and>
   ((is_Tool tools_value \<or> is_Tool_list tools_value) \<and> is_Bool verbose_value
      \<longrightarrow> (\<exists>a. Agent_init l tools_value verbose_value = Inr a \<and> llm a = l \<and>
                 verbose_value = PyBool (verbose a) \<and>
                 (tools_value = PyList (map PyTool (tools a)) \<or>
                  tools_value = PyTool (hd (tools a)) \<and> length (tools a) = 1)))"
  by (cases tools_value; cases verbose_value)
     (simp_all add: Agent_init_def BaseModel_init_def tools_setter_def verbose_setter_def
        tools_of_list)

theorem Agent_init_type_errors_witness:
  "Agent_init silent_llm (PyList [PyTool failing_tool]) (PyOther ''<class 'int'>'')
     = Inl (Exc TypeError ''verbose must be bool, got <class 'int'>'') \<and>
   Agent_init silent_llm (PyOther ''<class 'str'>'') (PyBool True)
     = Inl (Exc TypeError
         ''tools must be langchain Tool or list of Tools, got <class 'str'>'') \<and>
   Agent_init silent_llm (PyList [PyTool failing_tool, PyBool True]) (PyBool True)
     = Inl (Exc TypeError ''All tools must be langchain Tool objects'') \<and>
   Agent_init silent_llm (PyTool failing_tool) (PyBool False) = Inr failing_agent \<and>
   Agent_init silent_llm (PyList [PyTool failing_tool]) (PyBool False) = Inr failing_agent"
  using
    Agent_init_type_errors
      [of "PyOther ''<class 'int'>''" silent_llm "PyList [PyTool failing_tool]"]
    Agent_init_type_errors [of "PyBool True" silent_llm "PyOther ''<class 'str'>''"]
    Agent_init_type_errors
      [of "PyBool True" silent_llm "PyList [PyTool failing_tool, PyBool True]"]
    Agent_init_type_errors [of "PyBool False" silent_llm "PyTool failing_tool"]
    Agent_init_type_errors [of "PyBool False" silent_llm "PyList [PyTool failing_tool]"]
  by (simp add: Agent_init_def BaseModel_init_def tools_setter_def verbose_setter_def
        failing_agent_def)

section \<open>What the loop leaves alone\<close>

lemma loop_body_self: "self (snd (loop_body s)) = self s"
  by (auto simp: loop_body_def tool_step_def answer_step_def verbose_print_def Let_def
      split: prod.splits sum.splits action.splits)

lemma loop_body_prompt: "\<exists>t. prompt (snd (loop_body s)) = prompt s @ t"
  by (auto simp: loop_body_def tool_step_def answer_step_def verbose_print_def Let_def
      split: prod.splits sum.splits action.splits)

lemma run_loop_self: "self (snd (run_loop n s)) = self s"
proof (induction n arbitrary: s)
  case 0
  show ?case by simp
next
  case (Suc n)
  obtain r s' where b: "loop_body s = (r, s')"
    by (cases "loop_body s")
  then have "self s' = self s"
    using loop_body_self [of s] by simp
  with b Suc [of s'] show ?case
    by (cases r) simp_all
qed

lemma run_loop_prompt: "\<exists>t. prompt (snd (run_loop n s)) = prompt s @ t"
proof (induction n arbitrary: s)
  case 0
  show ?case by simp
next
  case (Suc n)
  obtain r s' where b: "loop_body s = (r, s')"
    by (cases "loop_body s")
  then obtain t where t: "prompt s' = prompt s @ t"
    using loop_body_prompt [of s] by auto
  from Suc [of s'] obtain u where "prompt (snd (run_loop n s')) = prompt s' @ u"
    by blast
  with b t show ?case
    by (cases r) simp_all
qed

text \<open>
  C10. After any number of passes, and so when \<^verbatim>\<open>run\<close> has returned or raised, the agent
  is the one \<^verbatim>\<open>run\<close> was called on: its model, its tools and its flag are unchanged,
  and so are \<^verbatim>\<open>tool_dict\<close> and \<^verbatim>\<open>tool_names\<close>. From any state of the loop on, the agent
  stays the same and the prompt only grows at its end.
\<close>

theorem run_keeps_bindings:
  "self (snd (run n a question w)) = a \<and>
   llm (self (snd (run n a question w))) = llm a \<and>
   tools (self (snd (run n a question w))) = tools a \<and>
   verbose (self (snd (run n a question w))) = verbose a \<and>
   tool_dict (self (snd (run n a question w))) = tool_dict a \<and>
   tool_names (self (snd (run n a question w))) = tool_names a \<and>
   self (snd (run_loop n s)) = self s \<and>
   (\<exists>t. prompt (snd (run_loop n s)) = prompt s @ t)"
proof -
  have "self (snd (run n a question w)) = a"
    by (simp add: run_def run_loop_self verbose_print_def split: option.splits sum.splits)
  then show ?thesis
    using run_loop_self [of n s] run_loop_prompt [of n s] by simp
qed

section \<open>Formatting the prompt\<close>

lemma prepend_prepend: "prepend u (prepend v r) = prepend (u @ v) r"
  by (simp add: prepend_def split: option.splits sum.splits)

lemma prepend_eq_Inr:
  "prepend v r = Some (Inr t) \<Longrightarrow> \<exists>t'. r = Some (Inr t') \<and> t = v @ t'"
  by (auto simp: prepend_def split: option.splits sum.splits)

lemma prepend_Nil: "prepend [] r = r"
  by (simp add: prepend_def split: option.splits sum.splits)

lemma finish_eq_Inr:
  "finish rd kw f r = Some (Inr t) \<Longrightarrow>
   \<exists>v t'. field_value rd kw f = Some (Inr v) \<and> r = Some (Inr t') \<and> t = v @ t'"
  by (auto simp: finish_def split: option.splits sum.splits dest: prepend_eq_Inr)

lemma finish_value: "field_value rd kw f = Some (Inr v) \<Longrightarrow> finish rd kw f r = prepend v r"
  by (simp add: finish_def)

text \<open>
  A text that is accepted on its own is read in the same way when more text follows
  it: the four readers get to the end of it at the top level.
\<close>

lemma format_with_append_all:
  "(format_with rd kw a = Some (Inr a')
      \<longrightarrow> format_with rd kw (a @ b) = prepend a' (format_with rd kw b)) \<and>
   (scan_name rd kw f a = Some (Inr a')
      \<longrightarrow> scan_name rd kw f (a @ b) = prepend a' (format_with rd kw b)) \<and>
   (scan_index rd kw f a = Some (Inr a')
      \<longrightarrow> scan_index rd kw f (a @ b) = prepend a' (format_with rd kw b)) \<and>
   (scan_spec rd kw f n a = Some (Inr a')
      \<longrightarrow> scan_spec rd kw f n (a @ b) = prepend a' (format_with rd kw b))"
proof (induction "length a" arbitrary: a a' f n rule: less_induct)
  case less
  have ih_text: "format_with rd kw (x @ b) = prepend x' (format_with rd kw b)"
    if "length x < length a" and "format_with rd kw x = Some (Inr x')" for x x'
    using less [OF that(1), of x' f n] that(2) by simp
  have ih_name: "scan_name rd kw g (x @ b) = prepend x' (format_with rd kw b)"
    if "length x < length a" and "scan_name rd kw g x = Some (Inr x')" for x x' g
    using less [OF that(1), of x' g n] that(2) by simp
  have ih_index: "scan_index rd kw g (x @ b) = prepend x' (format_with rd kw b)"
    if "length x < length a" and "scan_index rd kw g x = Some (Inr x')" for x x' g
    using less [OF that(1), of x' g n] that(2) by simp
  have ih_spec: "scan_spec rd kw g m (x @ b) = prepend x' (format_with rd kw b)"
    if "length x < length a" and "scan_spec rd kw g m x = Some (Inr x')" for x x' g m
    using less [OF that(1), of x' g m] that(2) by simp
  have ih_finish: "finish rd kw g (format_with rd kw (x @ b)) = prepend x' (format_with rd kw b)"
    if "length x < length a" and "finish rd kw g (format_with rd kw x) = Some (Inr x')"
    for x x' g
  proof -
    from finish_eq_Inr [OF that(2)] obtain v t where
      v: "field_value rd kw g = Some (Inr v)" "format_with rd kw x = Some (Inr t)" "x' = v @ t"
      by blast
    with ih_text [OF that(1) v(2)] show ?thesis
      by (simp add: finish_value prepend_prepend)
  qed
  show ?case
  proof (cases a)
    case Nil
    then show ?thesis
      by (simp add: prepend_Nil)
  next
    case (Cons c cs)
    then have cs: "length cs < length a"
      by simp
    have "format_with rd kw (a @ b) = prepend a' (format_with rd kw b)"
      if h: "format_with rd kw a = Some (Inr a')"
    proof (cases cs)
      case Nil
      with h Cons have "c \<noteq> CHR ''{''" "c \<noteq> CHR ''}''" "a' = [c]"
        by (auto simp: prepend_def split: if_splits)
      with Nil Cons show ?thesis
        by simp
    next
      case d: (Cons d ds)
      then have ds: "length ds < length a"
        using Cons by simp
      consider (open_esc) "c = CHR ''{''" "d = CHR ''{''"
        | (open_field) "c = CHR ''{''" "d \<noteq> CHR ''{''"
        | (close_esc) "c = CHR ''}''" "d = CHR ''}''"
        | (close_single) "c = CHR ''}''" "d \<noteq> CHR ''}''"
        | (plain) "c \<noteq> CHR ''{''" "c \<noteq> CHR ''}''"
        by blast
      then show ?thesis
      proof cases
        case open_esc
        with h Cons d obtain t where t: "format_with rd kw ds = Some (Inr t)" "a' = ''{'' @ t"
          by (auto dest!: prepend_eq_Inr)
        with ih_text [OF ds t(1)] Cons d open_esc show ?thesis
          by (simp add: prepend_prepend)
      next
        case open_field
        with h Cons d have "scan_name rd kw [] cs = Some (Inr a')"
          by simp
        from ih_name [OF cs this] Cons d open_field show ?thesis
          by simp
      next
        case close_esc
        with h Cons d obtain t where t: "format_with rd kw ds = Some (Inr t)" "a' = ''}'' @ t"
          by (auto dest!: prepend_eq_Inr)
        with ih_text [OF ds t(1)] Cons d close_esc show ?thesis
          by (simp add: prepend_prepend)
      next
        case close_single
        with h Cons d show ?thesis
          by simp
      next
        case plain
        with h Cons obtain t where t: "format_with rd kw cs = Some (Inr t)" "a' = [c] @ t"
          by (auto dest!: prepend_eq_Inr)
        with ih_text [OF cs t(1)] Cons plain show ?thesis
          by (simp add: prepend_prepend)
      qed
    qed
    moreover
    have "scan_name rd kw f (a @ b) = prepend a' (format_with rd kw b)"
      if h: "scan_name rd kw f a = Some (Inr a')"
    proof -
      consider (bracket) "c = CHR ''[''" | (close) "c = CHR ''}''" | (colon) "c = CHR '':''"
        | (bang) "c = CHR ''!''"
        | (other) "c \<noteq> CHR ''{''" "c \<noteq> CHR ''[''" "c \<noteq> CHR ''}''" "c \<noteq> CHR '':''" "c \<noteq> CHR ''!''"
        using h Cons by (cases "c = CHR ''{''") auto
      then show ?thesis
      proof cases
        case bracket
        with h Cons have "scan_index rd kw (f @ [c]) cs = Some (Inr a')"
          by simp
        from ih_index [OF cs this] Cons \<open>c = CHR ''[''\<close> show ?thesis
          by simp
      next
        case close
        with h Cons have "finish rd kw f (format_with rd kw cs) = Some (Inr a')"
          by simp
        from ih_finish [OF cs this] Cons close show ?thesis
          by simp
      next
        case colon
        with h Cons have "scan_spec rd kw (f @ [c]) 1 cs = Some (Inr a')"
          by simp
        from ih_spec [OF cs this] Cons colon show ?thesis
          by simp
      next
        case bang
        with h Cons obtain conv d es where e: "cs = conv # d # es"
          by (cases cs; cases "tl cs") auto
        then have es: "length es < length a"
          using Cons by simp
        show ?thesis
        proof (cases "d = CHR ''}''")
          case True
          with h Cons bang e
          have "finish rd kw (f @ [c, conv]) (format_with rd kw es) = Some (Inr a')"
            by simp
          from ih_finish [OF es this] Cons bang e True show ?thesis
            by simp
        next
          case False
          with h Cons bang e have colon: "d = CHR '':''"
            by (auto split: if_splits)
          with h Cons bang e
          have "scan_spec rd kw (f @ [c, conv, d]) 1 es = Some (Inr a')"
            by simp
          from ih_spec [OF es this] Cons bang e colon show ?thesis
            by simp
        qed
      next
        case other
        with h Cons have "scan_name rd kw (f @ [c]) cs = Some (Inr a')"
          by simp
        from ih_name [OF cs this] Cons other show ?thesis
          by simp
      qed
    qed
    moreover
    have "scan_index rd kw f (a @ b) = prepend a' (format_with rd kw b)"
      if h: "scan_index rd kw f a = Some (Inr a')"
    proof (cases "c = CHR '']''")
      case True
      with h Cons have "scan_name rd kw (f @ [c]) cs = Some (Inr a')"
        by simp
      from ih_name [OF cs this] Cons True show ?thesis
        by simp
    next
      case False
      with h Cons have "scan_index rd kw (f @ [c]) cs = Some (Inr a')"
        by simp
      from ih_index [OF cs this] Cons False show ?thesis
        by simp
    qed
    moreover
    have "scan_spec rd kw f n (a @ b) = prepend a' (format_with rd kw b)"
      if h: "scan_spec rd kw f n a = Some (Inr a')"
    proof -
      consider (deeper) "c = CHR ''{''" | (last) "c = CHR ''}''" "n \<le> 1"
        | (inner) "c = CHR ''}''" "\<not> n \<le> 1" | (other) "c \<noteq> CHR ''{''" "c \<noteq> CHR ''}''"
        by blast
      then show ?thesis
      proof cases
        case deeper
        with h Cons have "scan_spec rd kw (f @ [c]) (Suc n) cs = Some (Inr a')"
          by simp
        from ih_spec [OF cs this] Cons deeper show ?thesis
          by simp
      next
        case last
        with h Cons have "finish rd kw f (format_with rd kw cs) = Some (Inr a')"
          by simp
        from ih_finish [OF cs this] Cons last show ?thesis
          by simp
      next
        case inner
        with h Cons have "scan_spec rd kw (f @ [c]) (n - 1) cs = Some (Inr a')"
          by simp
        from ih_spec [OF cs this] Cons inner show ?thesis
          by simp
      next
        case other
        with h Cons have "scan_spec rd kw (f @ [c]) n cs = Some (Inr a')"
          by simp
        from ih_spec [OF cs this] Cons other show ?thesis
          by simp
      qed
    qed
    ultimately show ?thesis
      by blast
  qed
qed

lemma format_with_append:
  "format_with rd kw a = Some (Inr a') \<Longrightarrow>
     format_with rd kw (a @ b) = prepend a' (format_with rd kw b)"
  using format_with_append_all [of rd kw a a' b] by simp

lemma format_brace_free: "brace_free s \<Longrightarrow> format_with rd kw s = Some (Inr s)"
  by (induction s) (auto simp: brace_free_def prepend_def)

lemma format_after_plain:
  "brace_free a \<Longrightarrow> format_with rd kw (a @ b) = prepend a (format_with rd kw b)"
  by (simp add: format_with_append format_brace_free)

lemma format_question:
  "kw ''question'' = Some q \<Longrightarrow>
   format_with rd kw (''{question}'' @ b) = prepend q (format_with rd kw b)"
  by (simp add: finish_def field_value_def plain_name_def isdigit_def)

lemma format_tool_names:
  "kw ''tool_names'' = Some v \<Longrightarrow>
   format_with rd kw (''{tool_names}'' @ b) = prepend v (format_with rd kw b)"
  by (simp add: finish_def field_value_def plain_name_def isdigit_def)

lemma brace_free_append [simp]: "brace_free (a @ b) = (brace_free a \<and> brace_free b)"
  by (auto simp: brace_free_def)

lemma brace_free_join:
  "brace_free sep \<Longrightarrow> \<forall>x \<in> set xs. brace_free x \<Longrightarrow> brace_free (join sep xs)"
  by (induction sep xs rule: join.induct) (auto simp: brace_free_def)

lemma brace_free_tool_descriptions:
  assumes "\<forall>t \<in> set (tools a). brace_free (name t) \<and> brace_free (description t)"
  shows "brace_free (tool_descriptions a)"
  unfolding tool_descriptions_def
  using assms by (intro brace_free_join) (auto simp: brace_free_def)

text \<open>The same for the call that \<^verbatim>\<open>create_prompt\<close> makes.\<close>

lemma format_call_append:
  "format_call r q n a = Some (Inr a') \<Longrightarrow>
   format_call r q n (a @ b) = prepend a' (format_call r q n b)"
  unfolding format_call_def by (rule format_with_append)

lemma format_call_brace_free: "brace_free s \<Longrightarrow> format_call r q n s = Some (Inr s)"
  unfolding format_call_def by (rule format_brace_free)

lemma format_call_after_plain:
  "brace_free a \<Longrightarrow> format_call r q n (a @ b) = prepend a (format_call r q n b)"
  unfolding format_call_def by (rule format_after_plain)

lemma format_call_question:
  "format_call r q n (''{question}'' @ b) = prepend q (format_call r q n b)"
  unfolding format_call_def by (rule format_question) simp

lemma format_call_tool_names:
  "format_call r q n (''{tool_names}'' @ b) = prepend (str_list n) (format_call r q n b)"
  unfolding format_call_def by (rule format_tool_names) simp

lemma format_call_INSTRUCTIONS:
  "format_call r q n INSTRUCTIONS =
    Some (Inr (''Use the following format:\<newline>\<newline>Question: the input question you must answer\<newline>Thought: you should always think about what to do next\<newline>Action: the action to take, should be one of ''
      @ str_list n @ ''\<newline>Action Input: The input to the action\<newline>Observation: the result of the action\<newline>... (this Thought/Action/Action Input/Observation can repeat N times)\<newline>Thought: I now know the final answer\<newline>Final Answer: the final answer to the original input question''))"
proof -
  let ?h = "''Use the following format:\<newline>\<newline>Question: the input question you must answer\<newline>Thought: you should always think about what to do next\<newline>Action: the action to take, should be one of ''"
  let ?t = "''\<newline>Action Input: The input to the action\<newline>Observation: the result of the action\<newline>... (this Thought/Action/Action Input/Observation can repeat N times)\<newline>Thought: I now know the final answer\<newline>Final Answer: the final answer to the original input question''"
  have split: "INSTRUCTIONS = ?h @ ''{tool_names}'' @ ?t"
    by (simp add: INSTRUCTIONS_def)
  have h: "brace_free ?h" and t: "brace_free ?t"
    by (simp_all add: brace_free_def)
  show ?thesis
    unfolding split
    by (simp only: format_call_after_plain [OF h] format_call_tool_names
          format_call_brace_free [OF t] prepend_def option.case sum.case)
qed

lemma format_call_SUFFIX:
  "format_call r q n SUFFIX = Some (Inr (''Begin\<newline>\<newline>Question: '' @ q @ ''\<newline>''))"
proof -
  have split: "SUFFIX = ''Begin\<newline>\<newline>Question: '' @ ''{question}'' @ ''\<newline>''"
    by (simp add: SUFFIX_def)
  have h: "brace_free ''Begin\<newline>\<newline>Question: ''" and t: "brace_free ''\<newline>''"
    by (simp_all add: brace_free_def)
  show ?thesis
    unfolding split
    by (simp only: format_call_after_plain [OF h] format_call_question
          format_call_brace_free [OF t] prepend_def option.case sum.case)
qed

text \<open>
  The prompt is made of its four parts, each formatted on its own, when each of them is
  accepted on its own.
\<close>

lemma create_prompt_with_formats:
  assumes "format_call r q (tool_names a) prefix = Some (Inr prefix')"
    and "format_call r q (tool_names a) (tool_descriptions a) = Some (Inr lines')"
    and "format_call r q (tool_names a) instructions = Some (Inr instructions')"
    and "format_call r q (tool_names a) suffix = Some (Inr suffix')"
  shows "create_prompt_with r a q prefix suffix instructions =
           Some (Inr (prefix' @ ''\<newline>\<newline>'' @ lines' @ ''\<newline>\<newline>''
             @ instructions' @ ''\<newline>\<newline>'' @ suffix'))"
proof -
  have nn: "brace_free ''\<newline>\<newline>''"
    by (simp add: brace_free_def)
  show ?thesis
    unfolding create_prompt_with_def
    by (simp only: format_call_append [OF assms(1)] format_call_append [OF assms(2)]
          format_call_append [OF assms(3)] format_call_after_plain [OF nn] assms(4)
          prepend_def option.case sum.case)
qed

lemma create_prompt_unknown:
  "create_prompt a q prefix suffix instructions =
   create_prompt_with (\<lambda>question names field. None) a q prefix suffix instructions"
  by (simp add: create_prompt_def create_prompt_with_def format_call_def format_text_def)

lemma create_prompt_default:
  assumes "\<forall>t \<in> set (tools a). brace_free (name t) \<and> brace_free (description t)"
  shows "create_prompt a question PREFIX SUFFIX INSTRUCTIONS =
    Some (Inr (PREFIX @ ''\<newline>\<newline>'' @ tool_descriptions a @ ''\<newline>\<newline>''
      @ ''Use the following format:\<newline>\<newline>Question: the input question you must answer\<newline>Thought: you should always think about what to do next\<newline>Action: the action to take, should be one of ''
      @ str_list (tool_names a) @ ''\<newline>Action Input: The input to the action\<newline>Observation: the result of the action\<newline>... (this Thought/Action/Action Input/Observation can repeat N times)\<newline>Thought: I now know the final answer\<newline>Final Answer: the final answer to the original input question''
      @ ''\<newline>\<newline>Begin\<newline>\<newline>Question: '' @ question @ ''\<newline>''))"
proof -
  have p: "brace_free PREFIX"
    by (simp add: brace_free_def PREFIX_def)
  from create_prompt_with_formats [OF format_call_brace_free [OF p]
      format_call_brace_free [OF brace_free_tool_descriptions [OF assms]]
      format_call_INSTRUCTIONS format_call_SUFFIX]
  show ?thesis
    by (simp add: create_prompt_unknown)
qed

lemma create_prompt_search_agent:
  "create_prompt search_agent ''What is the capital of France?'' PREFIX SUFFIX INSTRUCTIONS
     = Some (Inr capital_prompt)"
proof -
  have "\<forall>t \<in> set (tools search_agent). brace_free (name t) \<and> brace_free (description t)"
    by (simp add: search_agent_def search_tool_def brace_free_def)
  then show ?thesis
    by (simp add: create_prompt_default capital_prompt_def tool_descriptions_def tool_names_def
          search_agent_def search_tool_def str_list_def repr_def repr_char_def isprintable_def
          Let_def)
qed

text \<open>A text is in another one when it stands between two texts there.\<close>

lemma startswith_iff: "startswith s p \<longleftrightarrow> (\<exists>v. s = p @ v)"
  unfolding startswith_def
  by (metis append_eq_conv_conj append_take_drop_id)

lemma contains_iff: "contains s sub \<longleftrightarrow> (\<exists>u v. s = u @ sub @ v)"
proof (induction s)
  case Nil
  show ?case by simp
next
  case (Cons c cs)
  have "(\<exists>u v. c # cs = u @ sub @ v) \<longleftrightarrow> (\<exists>v. c # cs = sub @ v) \<or> (\<exists>u v. cs = u @ sub @ v)"
    (is "?l \<longleftrightarrow> ?r")
  proof
    assume ?l
    then obtain u v where uv: "c # cs = u @ sub @ v"
      by blast
    show ?r
    proof (cases u)
      case Nil
      with uv show ?thesis by auto
    next
      case (Cons d u')
      with uv have "cs = u' @ sub @ v" by simp
      then show ?thesis by blast
    qed
  next
    assume ?r
    then show ?l
    proof
      assume "\<exists>v. c # cs = sub @ v"
      then obtain v where "c # cs = [] @ sub @ v" by auto
      then show ?l by blast
    next
      assume "\<exists>u v. cs = u @ sub @ v"
      then obtain u v where "c # cs = (c # u) @ sub @ v" by auto
      then show ?l by blast
    qed
  qed
  with Cons show ?case
    by (simp add: startswith_iff)
qed

lemma contains_between: "contains (u @ sub @ v) sub"
  unfolding contains_iff by blast

lemma contains_inside: "contains t sub \<Longrightarrow> contains (u @ t @ v) sub"
  unfolding contains_iff by (metis append.assoc)

lemma contains_join: "x \<in> set xs \<Longrightarrow> contains (join sep xs) x"
proof (induction sep xs rule: join.induct)
  case (1 sep)
  then show ?case by simp
next
  case (2 sep y)
  then show ?case
    using contains_between [of "[]" x "[]"] by simp
next
  case (3 sep y z zs)
  show ?case
  proof (cases "x = y")
    case True
    then show ?thesis
      using contains_between [of "[]" y "sep @ join sep (z # zs)"] by simp
  next
    case False
    with 3 have "contains (join sep (z # zs)) x"
      by simp
    from contains_inside [OF this, of "y @ sep" "[]"] show ?thesis
      by simp
  qed
qed

text \<open>
  C8, as stated, fails in three ways. With the suffix \<^verbatim>\<open>Begin\<close>, which has no placeholder,
  the prompt has no question mark in it, so the question \<^verbatim>\<open>Why?\<close> is not in the prompt.
  \<^verbatim>\<open>format\<close> is applied to the whole text, so it raises where a part is not accepted:
  \<^verbatim>\<open>KeyError\<close> with the default texts and a tool whose description is \<^verbatim>\<open>Looks up {term}\<close>,
  \<^verbatim>\<open>ValueError\<close> with the prefix that is one closing brace; no prompt is returned then.
  And of a description with doubled braces, \<^verbatim>\<open>Writes {{x}}\<close>, the prompt has
  \<^verbatim>\<open>Writes {x}\<close> and not the description.
\<close>

theorem create_prompt_counterexample:
  "(case create_prompt \<lparr>llm = silent_llm, tools = [], verbose = False\<rparr> ''Why?''
           PREFIX ''Begin'' INSTRUCTIONS of
      Some (Inr p) \<Rightarrow> CHR ''?'' \<notin> set p
    | _ \<Rightarrow> False) \<and>
   create_prompt \<lparr>llm = silent_llm, tools = [lookup_tool], verbose = False\<rparr> ''Why?''
       PREFIX SUFFIX INSTRUCTIONS
     = Some (Inl (Exc KeyError (repr ''term''))) \<and>
   create_prompt \<lparr>llm = silent_llm, tools = [], verbose = False\<rparr> ''Why?''
       ''}'' SUFFIX INSTRUCTIONS
     = Some (Inl (Exc ValueError ''Single '}' encountered in format string'')) \<and>
   create_prompt \<lparr>llm = silent_llm, tools = [set_tool], verbose = False\<rparr> ''Why?''
       ''Tools:'' ''{question}'' ''Answer.''
     = Some (Inr ''Tools:\<newline>\<newline>Set: Writes {x}\<newline>\<newline>Answer.\<newline>\<newline>Why?'') \<and>
   \<not> contains ''Tools:\<newline>\<newline>Set: Writes {x}\<newline>\<newline>Answer.\<newline>\<newline>Why?''
       (description set_tool)"
proof (intro conjI)
  let ?a = "\<lparr>llm = silent_llm, tools = [], verbose = False\<rparr>"
  have "create_prompt ?a ''Why?'' PREFIX ''Begin'' INSTRUCTIONS =
      Some (Inr (PREFIX @ ''\<newline>\<newline>'' @ tool_descriptions ?a @ ''\<newline>\<newline>''
        @ (''Use the following format:\<newline>\<newline>Question: the input question you must answer\<newline>Thought: you should always think about what to do next\<newline>Action: the action to take, should be one of ''
      @ str_list (tool_names ?a) @ ''\<newline>Action Input: The input to the action\<newline>Observation: the result of the action\<newline>... (this Thought/Action/Action Input/Observation can repeat N times)\<newline>Thought: I now know the final answer\<newline>Final Answer: the final answer to the original input question'')
        @ ''\<newline>\<newline>'' @ ''Begin''))"
    unfolding create_prompt_unknown
  proof (rule create_prompt_with_formats)
    show "format_call (\<lambda>question names field. None) ''Why?'' (tool_names ?a) PREFIX
            = Some (Inr PREFIX)"
      by (rule format_call_brace_free) (simp add: brace_free_def PREFIX_def)
    show "format_call (\<lambda>question names field. None) ''Why?'' (tool_names ?a)
            (tool_descriptions ?a) = Some (Inr (tool_descriptions ?a))"
      by (rule format_call_brace_free) (simp add: brace_free_def tool_descriptions_def)
    show "format_call (\<lambda>question names field. None) ''Why?'' (tool_names ?a) INSTRUCTIONS
            = Some (Inr (''Use the following format:\<newline>\<newline>Question: the input question you must answer\<newline>Thought: you should always think about what to do next\<newline>Action: the action to take, should be one of ''
      @ str_list (tool_names ?a) @ ''\<newline>Action Input: The input to the action\<newline>Observation: the result of the action\<newline>... (this Thought/Action/Action Input/Observation can repeat N times)\<newline>Thought: I now know the final answer\<newline>Final Answer: the final answer to the original input question''))"
      by (rule format_call_INSTRUCTIONS)
    show "format_call (\<lambda>question names field. None) ''Why?'' (tool_names ?a) ''Begin''
            = Some (Inr ''Begin'')"
      by (rule format_call_brace_free) (simp add: brace_free_def)
  qed
  then show "case create_prompt ?a ''Why?'' PREFIX ''Begin'' INSTRUCTIONS of
      Some (Inr p) \<Rightarrow> CHR ''?'' \<notin> set p | _ \<Rightarrow> False"
    by (simp add: PREFIX_def tool_descriptions_def tool_names_def str_list_def)
next
  let ?a = "\<lparr>llm = silent_llm, tools = [lookup_tool], verbose = False\<rparr>"
  let ?kw = "map_of [(''question'', ''Why?''), (''tool_names'', str_list (tool_names ?a))]"
  let ?head = "PREFIX @ ''\<newline>\<newline>'' @ ''Lookup: Looks up ''"
  let ?rest = "''\<newline>\<newline>'' @ INSTRUCTIONS @ ''\<newline>\<newline>'' @ SUFFIX"
  have head: "brace_free ?head"
    by (simp add: brace_free_def PREFIX_def)
  have "create_prompt ?a ''Why?'' PREFIX SUFFIX INSTRUCTIONS
      = format_with (\<lambda>field. None) ?kw (?head @ ''{term}'' @ ?rest)"
    by (simp add: create_prompt_def format_text_def tool_descriptions_def lookup_tool_def)
  also have "\<dots> = prepend ?head (format_with (\<lambda>field. None) ?kw (''{term}'' @ ?rest))"
    by (rule format_after_plain [OF head])
  also have "format_with (\<lambda>field. None) ?kw (''{term}'' @ ?rest)
      = Some (Inl (Exc KeyError (repr ''term'')))"
    by (simp add: finish_def field_value_def plain_name_def isdigit_def)
  finally show "create_prompt ?a ''Why?'' PREFIX SUFFIX INSTRUCTIONS
      = Some (Inl (Exc KeyError (repr ''term'')))"
    by (simp add: prepend_def)
next
  show "create_prompt \<lparr>llm = silent_llm, tools = [], verbose = False\<rparr> ''Why?''
       ''}'' SUFFIX INSTRUCTIONS
     = Some (Inl (Exc ValueError ''Single '}' encountered in format string''))"
    by (simp add: create_prompt_def format_text_def single_close_def)
next
  show "create_prompt \<lparr>llm = silent_llm, tools = [set_tool], verbose = False\<rparr> ''Why?''
       ''Tools:'' ''{question}'' ''Answer.''
     = Some (Inr ''Tools:\<newline>\<newline>Set: Writes {x}\<newline>\<newline>Answer.\<newline>\<newline>Why?'')"
    by (simp add: create_prompt_def format_text_def tool_descriptions_def tool_names_def
          set_tool_def prepend_def finish_def field_value_def plain_name_def isdigit_def)
next
  show "\<not> contains ''Tools:\<newline>\<newline>Set: Writes {x}\<newline>\<newline>Answer.\<newline>\<newline>Why?''
       (description set_tool)"
    by (simp add: set_tool_def startswith_def)
qed

text \<open>
  C8, amended. \<^verbatim>\<open>create_prompt\<close> is a function of the agent's tools and of its four
  arguments and of nothing else: an agent with the same tools gets the same prompt,
  whatever its model and its flag are. For every agent, every question and every
  prefix, instructions and suffix such that \<^verbatim>\<open>format\<close>, called with the question and the
  tool names, accepts the prefix, the tool lines, the instructions and the suffix each
  on its own, whatever Python makes of the fields that are not plain names: it returns
  the four formatted texts in that order with an empty line between them. The tool lines
  are the lines \<^verbatim>\<open>name: description\<close> of the tools in the order of registration with an
  empty line between them; when no tool name or description has a brace \<^verbatim>\<open>format\<close> leaves
  them as they are, and when it leaves them as they are the prompt contains the line,
  the name and the description of every tool. The prompt contains the question when the
  placeholder \<^verbatim>\<open>{question}\<close> stands in the prefix, the instructions or the suffix after a
  text that \<^verbatim>\<open>format\<close> accepts on its own.
\<close>

theorem create_prompt_contains:
  assumes "format_call render question (tool_names a) prefix = Some (Inr prefix')"
    and "format_call render question (tool_names a) (tool_descriptions a) = Some (Inr lines')"
    and "format_call render question (tool_names a) instructions = Some (Inr instructions')"
    and "format_call render question (tool_names a) suffix = Some (Inr suffix')"
  shows "let p = prefix' @ ''\<newline>\<newline>'' @ lines' @ ''\<newline>\<newline>'' @ instructions'
                   @ ''\<newline>\<newline>'' @ suffix'
         in create_prompt_with render a question prefix suffix instructions = Some (Inr p) \<and>
            ((\<forall>t \<in> set (tools a). brace_free (name t) \<and> brace_free (description t))
               \<longrightarrow> lines' = tool_descriptions a) \<and>
            (lines' = tool_descriptions a
               \<longrightarrow> (\<forall>t \<in> set (tools a).
                      contains p (name t @ '': '' @ description t) \<and>
                      contains p (name t) \<and> contains p (description t))) \<and>
            (\<forall>x y x'.
               (prefix = x @ ''{question}'' @ y \<or> instructions = x @ ''{question}'' @ y
                  \<or> suffix = x @ ''{question}'' @ y) \<and>
               format_call render question (tool_names a) x = Some (Inr x')
               \<longrightarrow> contains p question) \<and>
            (\<forall>b. tools b = tools a \<longrightarrow>
               create_prompt_with render b question prefix suffix instructions =
               create_prompt_with render a question prefix suffix instructions)"
proof -
  let ?nn = "''\<newline>\<newline>''"
  let ?p = "prefix' @ ?nn @ lines' @ ?nn @ instructions' @ ?nn @ suffix'"
  have result: "create_prompt_with render a question prefix suffix instructions = Some (Inr ?p)"
    by (rule create_prompt_with_formats [OF assms])
  have unchanged: "lines' = tool_descriptions a"
    if "\<forall>t \<in> set (tools a). brace_free (name t) \<and> brace_free (description t)"
    using format_call_brace_free [OF brace_free_tool_descriptions [OF that]] assms(2) by simp
  have lines: "contains ?p (name t @ '': '' @ description t) \<and>
               contains ?p (name t) \<and> contains ?p (description t)"
    if l: "lines' = tool_descriptions a" and t: "t \<in> set (tools a)" for t
  proof -
    from t have "contains lines' (name t @ '': '' @ description t)"
      unfolding l tool_descriptions_def by (intro contains_join) simp
    from contains_inside [OF this, of "prefix' @ ?nn" "?nn @ instructions' @ ?nn @ suffix'"]
    have line: "contains ?p (name t @ '': '' @ description t)"
      by simp
    have "contains (name t @ '': '' @ description t) (name t)"
      using contains_between [of "[]" "name t" "'': '' @ description t"] by simp
    moreover have "contains (name t @ '': '' @ description t) (description t)"
      using contains_between [of "name t @ '': ''" "description t" "[]"] by simp
    ultimately show ?thesis
      using line unfolding contains_iff by (metis append.assoc)
  qed
  have placed: "contains t' question"
    if "t = x @ ''{question}'' @ y"
      and "format_call render question (tool_names a) x = Some (Inr x')"
      and "format_call render question (tool_names a) t = Some (Inr t')" for t t' x y x'
  proof -
    from that(3) have "prepend x' (prepend question (format_call render question (tool_names a) y))
        = Some (Inr t')"
      unfolding that(1) by (simp only: format_call_append [OF that(2)] format_call_question)
    then obtain y' where "t' = x' @ question @ y'"
      by (auto dest!: prepend_eq_Inr)
    then show ?thesis
      using contains_between by simp
  qed
  have question: "contains ?p question"
    if "prefix = x @ ''{question}'' @ y \<or> instructions = x @ ''{question}'' @ y
          \<or> suffix = x @ ''{question}'' @ y"
      and x: "format_call render question (tool_names a) x = Some (Inr x')" for x y x'
    using that(1)
  proof (elim disjE)
    assume "prefix = x @ ''{question}'' @ y"
    from placed [OF this x assms(1)] contains_inside [of prefix' question "[]"]
    show ?thesis by simp
  next
    assume "instructions = x @ ''{question}'' @ y"
    from contains_inside [OF placed [OF this x assms(3)], of "prefix' @ ?nn @ lines' @ ?nn"
        "?nn @ suffix'"]
    show ?thesis by simp
  next
    assume "suffix = x @ ''{question}'' @ y"
    from contains_inside [OF placed [OF this x assms(4)],
        of "prefix' @ ?nn @ lines' @ ?nn @ instructions' @ ?nn" "[]"]
    show ?thesis by simp
  qed
  have same: "create_prompt_with render b question prefix suffix instructions =
              create_prompt_with render a question prefix suffix instructions"
    if "tools b = tools a" for b :: "'a Agent"
    using that by (simp add: create_prompt_with_def tool_descriptions_def tool_names_def)
  from result unchanged lines question same show ?thesis
    unfolding Let_def by blast
qed

theorem create_prompt_contains_witness:
  "create_prompt_with (\<lambda>question names field. None) search_agent
       ''What is the capital of France?'' PREFIX SUFFIX INSTRUCTIONS
     = Some (Inr capital_prompt) \<and>
   contains capital_prompt ''What is the capital of France?'' \<and>
   contains capital_prompt ''Search: Looks things up'' \<and>
   create_prompt_with repr_renderer search_agent ''Why?''
       ''{{tools}}'' ''{question}'' ''Asked: {question!r}''
     = Some (Inr ''{tools}\<newline>\<newline>Search: Looks things up\<newline>\<newline>Asked: 'Why?'\<newline>\<newline>Why?'') \<and>
   create_prompt_with repr_renderer (search_agent\<lparr>verbose := True\<rparr>) ''Why?''
       ''{{tools}}'' ''{question}'' ''Asked: {question!r}''
     = create_prompt_with repr_renderer search_agent ''Why?''
         ''{{tools}}'' ''{question}'' ''Asked: {question!r}''"
proof -
  let ?q = "''What is the capital of France?''"
  let ?i = "''Use the following format:\<newline>\<newline>Question: the input question you must answer\<newline>Thought: you should always think about what to do next\<newline>Action: the action to take, should be one of ''
      @ str_list (tool_names search_agent) @ ''\<newline>Action Input: The input to the action\<newline>Observation: the result of the action\<newline>... (this Thought/Action/Action Input/Observation can repeat N times)\<newline>Thought: I now know the final answer\<newline>Final Answer: the final answer to the original input question''"
  let ?p = "PREFIX @ ''\<newline>\<newline>'' @ tool_descriptions search_agent @ ''\<newline>\<newline>'' @ ?i
      @ ''\<newline>\<newline>'' @ ''Begin\<newline>\<newline>Question: '' @ ?q @ ''\<newline>''"
  have tools: "\<forall>t \<in> set (tools search_agent). brace_free (name t) \<and> brace_free (description t)"
    by (simp add: search_agent_def search_tool_def brace_free_def)
  have prefix: "brace_free PREFIX"
    by (simp add: PREFIX_def brace_free_def)
  have before: "brace_free ''Begin\<newline>\<newline>Question: ''"
    by (simp add: brace_free_def)
  have suffix: "SUFFIX = ''Begin\<newline>\<newline>Question: '' @ ''{question}'' @ ''\<newline>''"
    by (simp add: SUFFIX_def)
  have p: "?p = capital_prompt"
    by (simp add: capital_prompt_def PREFIX_def tool_descriptions_def tool_names_def
          search_agent_def search_tool_def str_list_def repr_def repr_char_def isprintable_def
          Let_def)
  note default = create_prompt_contains
    [where render = "\<lambda>question names field. None" and a = search_agent and question = ?q,
     OF format_call_brace_free [OF prefix]
        format_call_brace_free [OF brace_free_tool_descriptions [OF tools]]
        format_call_INSTRUCTIONS format_call_SUFFIX, unfolded Let_def]
  from default
  have 1: "create_prompt_with (\<lambda>question names field. None) search_agent ?q
             PREFIX SUFFIX INSTRUCTIONS = Some (Inr ?p)"
    by (elim conjE)
  from default tools have "\<forall>t \<in> set (tools search_agent).
      contains ?p (name t @ '': '' @ description t)"
    by blast
  then have 2: "contains ?p ''Search: Looks things up''"
    by (simp add: search_agent_def search_tool_def)
  from default suffix format_call_brace_free [OF before] have 3: "contains ?p ?q"
    by blast
  let ?names = "tool_names search_agent"
  have a: "format_call repr_renderer ''Why?'' ?names ''{{tools}}'' = Some (Inr ''{tools}'')"
    by (simp add: format_call_def prepend_def)
  have b: "format_call repr_renderer ''Why?'' ?names (tool_descriptions search_agent)
             = Some (Inr ''Search: Looks things up'')"
    using format_call_brace_free [OF brace_free_tool_descriptions [OF tools]]
    by (simp add: tool_descriptions_def search_agent_def search_tool_def)
  have c: "format_call repr_renderer ''Why?'' ?names ''Asked: {question!r}''
             = Some (Inr (''Asked: 'Why?'' @ [CHR 0x27]))"
    by (simp add: format_call_def prepend_def finish_def field_value_def plain_name_def
          isdigit_def repr_renderer_def repr_def repr_char_def isprintable_def Let_def)
  have d: "format_call repr_renderer ''Why?'' ?names ''{question}'' = Some (Inr ''Why?'')"
    using format_call_question [of repr_renderer "''Why?''" ?names "[]"]
    by (simp add: format_call_def prepend_def)
  note other = create_prompt_contains [OF a b c d, unfolded Let_def]
  from other
  have 4: "create_prompt_with repr_renderer search_agent ''Why?''
       ''{{tools}}'' ''{question}'' ''Asked: {question!r}''
     = Some (Inr ''{tools}\<newline>\<newline>Search: Looks things up\<newline>\<newline>Asked: 'Why?'\<newline>\<newline>Why?'')"
    by simp
  from other
  have 5: "create_prompt_with repr_renderer (search_agent\<lparr>verbose := True\<rparr>) ''Why?''
       ''{{tools}}'' ''{question}'' ''Asked: {question!r}''
     = create_prompt_with repr_renderer search_agent ''Why?''
         ''{{tools}}'' ''{question}'' ''Asked: {question!r}''"
    by simp
  from 1 2 3 4 5 show ?thesis
    unfolding p by blast
qed

section \<open>Passes of the loop\<close>

lemma calls_append [simp]: "calls (a @ b) = calls a @ calls b"
  by (simp add: calls_def)

lemma calls_Nil [simp]: "calls [] = []"
  by (simp add: calls_def)

lemma calls_Cons [simp]: "calls (e # tr) = (if is_call e then e # calls tr else calls tr)"
  by (simp add: calls_def)

lemma calls_Print [simp]: "calls (map Print xs) = []"
  by (induction xs) simp_all

lemma run_tool_calls:
  "snd (snd (run_tool a n i w)) = (if tool_dict a n = None then [] else [Call_tool n i])"
  by (auto simp: run_tool_def split: option.splits prod.splits sum.splits)

lemma loop_body_tool_call:
  assumes "llm (self s) (prompt s) (world s) = (Inr reply, w)"
    and "snd (parse_output reply) = Inr (Tool_call tool input thought)"
    and "run_tool (self s) tool input w = (Inr out, w', evs)"
  shows "fst (loop_body s) = Continue"
    and "self (snd (loop_body s)) = self s"
    and "prompt (snd (loop_body s)) =
           prompt s @ thought @ ''\<newline>Action: '' @ tool @ ''\<newline>Action Input: '' @ input
             @ ''\<newline>Observation: ''
             @ (if out = [] then ''Tool returned no results'' else out) @ ''\<newline>''"
    and "world (snd (loop_body s)) = w'"
    and "calls (trace (snd (loop_body s))) = calls (trace s) @ [Call_llm (prompt s)] @ calls evs"
  using assms
  by (simp_all add: loop_body_def tool_step_def verbose_print_def Let_def)

lemma loop_body_final_answer:
  assumes "llm (self s) (prompt s) (world s) = (Inr reply, w)"
    and "snd (parse_output reply) = Inr (Final_answer answer thought)"
  shows "fst (loop_body s) =
           Return \<lparr>response = answer,
                   full_text = prompt s @ thought @ ''\<newline>Final Answer: '' @ answer\<rparr>"
    and "self (snd (loop_body s)) = self s"
    and "prompt (snd (loop_body s)) = prompt s @ thought @ ''\<newline>Final Answer: '' @ answer"
    and "world (snd (loop_body s)) = w"
    and "calls (trace (snd (loop_body s))) = calls (trace s) @ [Call_llm (prompt s)]"
  using assms
  by (simp_all add: loop_body_def answer_step_def verbose_print_def Let_def)

lemma loop_body_unparsed:
  assumes "llm (self s) (prompt s) (world s) = (Inr reply, w)"
    and "snd (parse_output reply) = Inr (Unparsed u)"
  shows "fst (loop_body s) = Raise string_index_error"
    and "world (snd (loop_body s)) = w"
    and "calls (trace (snd (loop_body s))) = calls (trace s) @ [Call_llm (prompt s)]"
  using assms
  by (simp_all add: loop_body_def verbose_print_def Let_def)

lemma run_loop_Suc_Continue:
  "fst (loop_body s) = Continue \<Longrightarrow> run_loop (Suc n) s = run_loop n (snd (loop_body s))"
  by (cases "loop_body s") simp

lemma run_loop_Suc_stop:
  "fst (loop_body s) \<noteq> Continue \<Longrightarrow> run_loop (Suc n) s = loop_body s"
  by (cases "loop_body s"; cases "fst (loop_body s)") auto

lemma run_loop_add:
  "run_loop k s = (Continue, s') \<Longrightarrow> run_loop (k + m) s = run_loop m s'"
proof (induction k arbitrary: s)
  case 0
  then show ?case by simp
next
  case (Suc k)
  show ?case
  proof (cases "fst (loop_body s) = Continue")
    case True
    note step = run_loop_Suc_Continue [OF True]
    from Suc.prems have "run_loop k (snd (loop_body s)) = (Continue, s')"
      by (simp only: step)
    then have "run_loop (k + m) (snd (loop_body s)) = run_loop m s'"
      by (rule Suc.IH)
    then show ?thesis
      by (simp only: step add_Suc)
  next
    case False
    from Suc.prems have "loop_body s = (Continue, s')"
      by (simp only: run_loop_Suc_stop [OF False])
    with False show ?thesis
      by simp
  qed
qed

lemma run_Continue:
  assumes "run k a question w0 = (Continue, s)"
  shows "run (k + m) a question w0 = run_loop m s"
proof -
  from assms obtain p where p: "create_prompt a question PREFIX SUFFIX INSTRUCTIONS = Some (Inr p)"
    by (auto simp: run_def split: option.splits sum.splits)
  with assms show ?thesis
    by (simp add: run_def run_loop_add)
qed

text \<open>
  C3. A pass in which the model's output parses to a tool call and \<^verbatim>\<open>run_tool\<close> returns
  appends the thought, \<^verbatim>\<open>Action\<close>, \<^verbatim>\<open>Action Input\<close> and \<^verbatim>\<open>Observation\<close> lines to the prompt,
  the observation being \<^verbatim>\<open>Tool returned no results\<close> exactly when the tool's output is
  empty, and the loop goes on. A pass in which it parses to a final answer returns the
  answer and the prompt with the thought and the \<^verbatim>\<open>Final Answer\<close> line appended. When
  the first output is a call of a registered tool and the second a final answer,
  \<^verbatim>\<open>run\<close> returns after two passes with that answer and that text, and its calls are
  the model, the tool, the model, in this order.
\<close>

theorem run_follows_steps:
  "(llm (self s) (prompt s) (world s) = (Inr reply, w) \<and>
    snd (parse_output reply) = Inr (Tool_call tool input thought) \<and>
    run_tool (self s) tool input w = (Inr out, w', evs)
    \<longrightarrow> fst (loop_body s) = Continue \<and>
        prompt (snd (loop_body s)) =
          prompt s @ thought @ ''\<newline>Action: '' @ tool @ ''\<newline>Action Input: '' @ input
            @ ''\<newline>Observation: ''
            @ (if out = [] then ''Tool returned no results'' else out) @ ''\<newline>'') \<and>
   (llm (self t) (prompt t) (world t) = (Inr reply', v) \<and>
    snd (parse_output reply') = Inr (Final_answer answer thought')
    \<longrightarrow> fst (loop_body t) =
          Return \<lparr>response = answer,
                  full_text = prompt t @ thought' @ ''\<newline>Final Answer: '' @ answer\<rparr>) \<and>
   (create_prompt a question PREFIX SUFFIX INSTRUCTIONS = Some (Inr p0) \<and>
    llm a p0 w0 = (Inr reply1, w1) \<and>
    snd (parse_output reply1) = Inr (Tool_call tool1 input1 thought1) \<and>
    tool_dict a tool1 \<noteq> None \<and>
    run_tool a tool1 input1 w1 = (Inr out1, w2, evs1) \<and>
    p1 = p0 @ thought1 @ ''\<newline>Action: '' @ tool1 @ ''\<newline>Action Input: '' @ input1
           @ ''\<newline>Observation: ''
           @ (if out1 = [] then ''Tool returned no results'' else out1) @ ''\<newline>'' \<and>
    llm a p1 w2 = (Inr reply2, w3) \<and>
    snd (parse_output reply2) = Inr (Final_answer answer2 thought2)
    \<longrightarrow> fst (run (Suc (Suc n)) a question w0) =
          Return \<lparr>response = answer2,
                  full_text = p1 @ thought2 @ ''\<newline>Final Answer: '' @ answer2\<rparr> \<and>
        world (snd (run (Suc (Suc n)) a question w0)) = w3 \<and>
        calls (trace (snd (run (Suc (Suc n)) a question w0))) =
          [Call_llm p0, Call_tool tool1 input1, Call_llm p1])"
proof (intro conjI impI; (elim conjE)?)
  assume "llm (self s) (prompt s) (world s) = (Inr reply, w)"
    and "snd (parse_output reply) = Inr (Tool_call tool input thought)"
    and "run_tool (self s) tool input w = (Inr out, w', evs)"
  then show "fst (loop_body s) = Continue"
    and "prompt (snd (loop_body s)) =
          prompt s @ thought @ ''\<newline>Action: '' @ tool @ ''\<newline>Action Input: '' @ input
            @ ''\<newline>Observation: ''
            @ (if out = [] then ''Tool returned no results'' else out) @ ''\<newline>''"
    by (rule loop_body_tool_call)+
next
  assume "llm (self t) (prompt t) (world t) = (Inr reply', v)"
    and "snd (parse_output reply') = Inr (Final_answer answer thought')"
  then show "fst (loop_body t) =
          Return \<lparr>response = answer,
                  full_text = prompt t @ thought' @ ''\<newline>Final Answer: '' @ answer\<rparr>"
    by (rule loop_body_final_answer)
next
  assume p0: "create_prompt a question PREFIX SUFFIX INSTRUCTIONS = Some (Inr p0)"
    and l1: "llm a p0 w0 = (Inr reply1, w1)"
    and a1: "snd (parse_output reply1) = Inr (Tool_call tool1 input1 thought1)"
    and reg: "tool_dict a tool1 \<noteq> None"
    and t1: "run_tool a tool1 input1 w1 = (Inr out1, w2, evs1)"
    and p1: "p1 = p0 @ thought1 @ ''\<newline>Action: '' @ tool1 @ ''\<newline>Action Input: '' @ input1
           @ ''\<newline>Observation: ''
           @ (if out1 = [] then ''Tool returned no results'' else out1) @ ''\<newline>''"
    and l2: "llm a p1 w2 = (Inr reply2, w3)"
    and a2: "snd (parse_output reply2) = Inr (Final_answer answer2 thought2)"
  define s0 where "s0 = verbose_print \<lparr>self = a, prompt = p0, world = w0, trace = []\<rparr>
      [Print ''INITIAL PROMPT:'', Print ''\<newline>'', Print p0, Print ''\<newline>\<newline>'']"
  define s1 where "s1 = snd (loop_body s0)"
  have s0: "self s0 = a" "prompt s0 = p0" "world s0 = w0" "calls (trace s0) = []"
    by (simp_all add: s0_def verbose_print_def)
  have run: "run (Suc (Suc n)) a question w0 = run_loop (Suc (Suc n)) s0"
    by (simp only: run_def p0 s0_def option.case sum.case)
  have evs1: "evs1 = [Call_tool tool1 input1]"
    using run_tool_calls [of a tool1 input1 w1] reg t1 by simp
  have l1': "llm (self s0) (prompt s0) (world s0) = (Inr reply1, w1)"
    and t1': "run_tool (self s0) tool1 input1 w1 = (Inr out1, w2, evs1)"
    using l1 t1 s0 by simp_all
  note first = loop_body_tool_call [OF l1' a1 t1']
  have s1: "self s1 = a" "prompt s1 = p1" "world s1 = w2"
      "calls (trace s1) = [Call_llm p0, Call_tool tool1 input1]"
    using first s0 p1 evs1 by (simp_all add: s1_def)
  have l2': "llm (self s1) (prompt s1) (world s1) = (Inr reply2, w3)"
    using l2 s1 by simp
  note second = loop_body_final_answer [OF l2' a2]
  have "run_loop (Suc (Suc n)) s0 = run_loop (Suc n) s1"
    unfolding s1_def using first(1) by (rule run_loop_Suc_Continue)
  also have "\<dots> = loop_body s1"
    using second(1) by (intro run_loop_Suc_stop) simp
  finally have "run (Suc (Suc n)) a question w0 = loop_body s1"
    using run by simp
  with second s1
  show "fst (run (Suc (Suc n)) a question w0) =
          Return \<lparr>response = answer2,
                  full_text = p1 @ thought2 @ ''\<newline>Final Answer: '' @ answer2\<rparr>"
    and "world (snd (run (Suc (Suc n)) a question w0)) = w3"
    and "calls (trace (snd (run (Suc (Suc n)) a question w0))) =
          [Call_llm p0, Call_tool tool1 input1, Call_llm p1]"
    by simp_all
qed

theorem run_follows_steps_witness:
  "fst (loop_body \<lparr>self = search_agent, prompt = capital_prompt, world = (0, 0), trace = []\<rparr>)
     = Continue \<and>
   prompt (snd (loop_body
       \<lparr>self = search_agent, prompt = capital_prompt, world = (0, 0), trace = []\<rparr>))
     = capital_prompt @ ''Thought: I should search\<newline>Action: Search\<newline>Action Input: capital of France\<newline>Observation: Paris\<newline>'' \<and>
   fst (loop_body \<lparr>self = search_agent, prompt = ''Question: x\<newline>'', world = (1, 1), trace = []\<rparr>)
     = Return \<lparr>response = ''Paris'',
               full_text = ''Question: x\<newline>Thought: done\<newline>Final Answer: Paris''\<rparr> \<and>
   fst (run 2 search_agent ''What is the capital of France?'' (0, 0))
     = Return \<lparr>response = ''Paris'',
               full_text = capital_prompt @ ''Thought: I should search\<newline>Action: Search\<newline>Action Input: capital of France\<newline>Observation: Paris\<newline>Thought: done\<newline>Final Answer: Paris''\<rparr> \<and>
   world (snd (run 2 search_agent ''What is the capital of France?'' (0, 0))) = (2, 1) \<and>
   calls (trace (snd (run 2 search_agent ''What is the capital of France?'' (0, 0))))
     = [Call_llm capital_prompt, Call_tool ''Search'' ''capital of France'',
        Call_llm (capital_prompt @ ''Thought: I should search\<newline>Action: Search\<newline>Action Input: capital of France\<newline>Observation: Paris\<newline>'')]"
proof -
  let ?r1 = "''Thought: I should search\<newline>Action: Search\<newline>Action Input: capital of France\<newline>Observation: ignored''"
  let ?r2 = "''Thought: done\<newline>Final Answer: Paris''"
  let ?p1 = "capital_prompt @ ''Thought: I should search'' @ ''\<newline>Action: '' @ ''Search''
      @ ''\<newline>Action Input: '' @ ''capital of France'' @ ''\<newline>Observation: ''
      @ (if ''Paris'' = [] then ''Tool returned no results'' else ''Paris'') @ ''\<newline>''"
  let ?s = "\<lparr>self = search_agent, prompt = capital_prompt, world = (0, 0), trace = []\<rparr>"
  let ?t = "\<lparr>self = search_agent, prompt = ''Question: x\<newline>'', world = (1, 1), trace = []\<rparr>"
  have a1: "snd (parse_output ?r1)
      = Inr (Tool_call ''Search'' ''capital of France'' ''Thought: I should search'')"
    by (simp add: parse_output_eval)
  have a2: "snd (parse_output ?r2) = Inr (Final_answer ''Paris'' ''Thought: done'')"
    by (simp add: parse_output_eval)
  have d: "tool_dict search_agent ''Search'' = Some search_tool"
    by (simp add: tool_dict_def search_agent_def search_tool_def)
  have t1: "run_tool search_agent ''Search'' ''capital of France'' (1, 0)
      = (Inr ''Paris'', (1, 1), [Call_tool ''Search'' ''capital of France''])"
    by (simp add: run_tool_def d) (simp add: search_tool_def)
  have l: "llm search_agent = scripted_llm"
    by (simp add: search_agent_def)
  have l1: "scripted_llm capital_prompt (0, 0) = (Inr ?r1, (1, 0))"
    and l2: "scripted_llm ?p1 (1, 1) = (Inr ?r2, (2, 1))"
    and l3: "scripted_llm ''Question: x\<newline>'' (1, 1) = (Inr ?r2, (2, 1))"
    by (simp_all add: scripted_llm_def)
  note inst = run_follows_steps
    [where s = ?s and reply = ?r1 and w = "(1, 0)" and tool = "''Search''"
       and input = "''capital of France''" and thought = "''Thought: I should search''"
       and out = "''Paris''" and w' = "(1, 1)"
       and evs = "[Call_tool ''Search'' ''capital of France'']"
       and t = ?t and reply' = ?r2 and v = "(2, 1)" and answer = "''Paris''"
       and thought' = "''Thought: done''"
       and a = search_agent and question = "''What is the capital of France?''"
       and ?p0.0 = capital_prompt and ?w0.0 = "(0, 0)" and ?reply1.0 = ?r1 and ?w1.0 = "(1, 0)"
       and ?tool1.0 = "''Search''" and ?input1.0 = "''capital of France''"
       and ?thought1.0 = "''Thought: I should search''" and ?out1.0 = "''Paris''"
       and ?w2.0 = "(1, 1)" and ?evs1.0 = "[Call_tool ''Search'' ''capital of France'']"
       and ?p1.0 = ?p1 and ?reply2.0 = ?r2 and ?w3.0 = "(2, 1)" and ?answer2.0 = "''Paris''"
       and ?thought2.0 = "''Thought: done''" and n = 0]
  from inst a1 a2 d t1 l l1 l2 l3 create_prompt_search_agent
  show ?thesis
    by (simp add: numeral_2_eq_2)
qed

text \<open>
  C4, amended. When \<^verbatim>\<open>run\<close> is still going after some passes and the model then returns
  an output that \<^verbatim>\<open>parse_output\<close> gives back as a plain string, \<^verbatim>\<open>run\<close> raises: reading
  \<^verbatim>\<open>action['Action']\<close> from a \<^verbatim>\<open>str\<close> is a \<^verbatim>\<open>TypeError\<close>. It does not return, and after
  the call of the model it calls nothing more, whatever number of further passes is
  allowed.
\<close>

theorem run_unparsed_raises_TypeError:
  assumes "run k a question w0 = (Continue, s)"
    and "llm (self s) (prompt s) (world s) = (Inr reply, w)"
    and "snd (parse_output reply) = Inr (Unparsed u)"
  shows "fst (run (k + Suc n) a question w0)
           = Raise (Exc TypeError ''string indices must be integers'') \<and>
         calls (trace (snd (run (k + Suc n) a question w0)))
           = calls (trace s) @ [Call_llm (prompt s)]"
proof -
  note last = loop_body_unparsed [OF assms(2) assms(3)]
  have "run (k + Suc n) a question w0 = run_loop (Suc n) s"
    using assms(1) by (rule run_Continue)
  also have "\<dots> = loop_body s"
    using last(1) by (intro run_loop_Suc_stop) simp
  finally show ?thesis
    using last by (simp add: string_index_error_def)
qed

lemma run_failing_agent_start:
  "\<exists>p. run 0 failing_agent ''Why?'' ()
         = (Continue, \<lparr>self = failing_agent, prompt = p, world = (), trace = []\<rparr>)"
proof -
  have "\<forall>t \<in> set (tools failing_agent). brace_free (name t) \<and> brace_free (description t)"
    by (simp add: failing_agent_def failing_tool_def brace_free_def)
  from create_prompt_default [OF this, of "''Why?''"] show ?thesis
    by (simp add: run_def verbose_print_def failing_agent_def)
qed

lemma parse_output_no_colons:
  "snd (parse_output ''no colons here'')
     = Inr (Unparsed ''no colons here\<newline>Warning: No parsable action detected. Be sure to '')"
  by (simp add: parse_output_eval no_action_warning_def)

text \<open>
  C4, as stated, fails on the class of the error: what is raised is a \<^verbatim>\<open>TypeError\<close>,
  which is not a \<^verbatim>\<open>LookupError\<close>.
\<close>

theorem run_unparsed_counterexample:
  "fst (run 1 failing_agent ''Why?'' ()) = Raise (Exc TypeError ''string indices must be integers'')
   \<and> \<not> is_LookupError (class_of (Exc TypeError ''string indices must be integers''))"
proof -
  from run_failing_agent_start obtain p where
    "run 0 failing_agent ''Why?'' ()
       = (Continue, \<lparr>self = failing_agent, prompt = p, world = (), trace = []\<rparr>)"
    by blast
  then have "run (0 + Suc 0) failing_agent ''Why?'' ()
      = run_loop (Suc 0) \<lparr>self = failing_agent, prompt = p, world = (), trace = []\<rparr>"
    by (rule run_Continue)
  moreover have body: "fst (loop_body \<lparr>self = failing_agent, prompt = p, world = (), trace = []\<rparr>)
      = Raise string_index_error"
    by (rule loop_body_unparsed(1) [OF _ parse_output_no_colons])
       (simp add: failing_agent_def silent_llm_def)
  moreover have "run_loop (Suc 0) \<lparr>self = failing_agent, prompt = p, world = (), trace = []\<rparr>
      = loop_body \<lparr>self = failing_agent, prompt = p, world = (), trace = []\<rparr>"
    using body by (intro run_loop_Suc_stop) simp
  ultimately show ?thesis
    by (simp add: string_index_error_def)
qed

theorem run_unparsed_raises_TypeError_witness:
  "fst (run 3 failing_agent ''Why?'' ()) = Raise (Exc TypeError ''string indices must be integers'')"
proof -
  from run_failing_agent_start obtain p where
    start: "run 0 failing_agent ''Why?'' ()
       = (Continue, \<lparr>self = failing_agent, prompt = p, world = (), trace = []\<rparr>)"
    by blast
  have model: "llm (self \<lparr>self = failing_agent, prompt = p, world = (), trace = []\<rparr>)
        (prompt \<lparr>self = failing_agent, prompt = p, world = (), trace = []\<rparr>)
        (world \<lparr>self = failing_agent, prompt = p, world = (), trace = []\<rparr>)
      = (Inr ''no colons here'', ())"
    by (simp add: failing_agent_def silent_llm_def)
  from run_unparsed_raises_TypeError [OF start model parse_output_no_colons, of 2]
  show ?thesis
    by (simp add: numeral_3_eq_3)
qed

end
